theory Spec2Isabelle
  imports
    Complex_Main
    "HOL-Library.AList"
    "HOL-Library.Char_ord"
    "HOL-Library.List_Lexorder"
    "HOL-Library.Multiset"
    "HOL-Library.Sublist"
begin

section \<open>Python values used by the services\<close>

text \<open>
  The exceptions that the modelled code can raise or catch. \<open>HTTPException\<close> carries
  \<open>status_code\<close> and \<open>detail\<close>; \<open>CollaboratorError\<close> stands for whatever an external
  collaborator (the ChromaDB client, the Ollama client) raises.
\<close>

datatype error =
    AttributeError
  | TypeError
  | IndexError
  | ValueError
  | JSONDecodeError
  | ValidationError
  | CollaboratorError string
  | HTTPException int string

text \<open>\<open>str(n)\<close> for a Python integer, as used by the f-strings of the source.\<close>

definition digit_char :: "nat \<Rightarrow> char" where
  "digit_char n = ''0123456789'' ! n"

function show_nat :: "nat \<Rightarrow> string" where
  "show_nat n = (if n < 10 then [digit_char n] else show_nat (n div 10) @ [digit_char (n mod 10)])"
  by pat_completeness auto
termination
  by (relation "measure id") auto

definition show_int :: "int \<Rightarrow> string" where
  "show_int i = (if i < 0 then CHR ''-'' # show_nat (nat (- i)) else show_nat (nat i))"

text \<open>\<open>sep.join(xs)\<close>.\<close>

fun join :: "string \<Rightarrow> string list \<Rightarrow> string" where
  "join sep [] = []"
| "join sep [x] = x"
| "join sep (x # y # ys) = x @ sep @ join sep (y # ys)"

section \<open>Diff model (\<open>services/diff_parser.py\<close>)\<close>

text \<open>
  The dictionaries that \<open>DiffParser.parse\<close> builds for a line and a hunk have fixed keys,
  so they are records; \<open>FileChange\<close> and \<open>ParsedDiff\<close> are the source's dataclasses.
  An absent line number is Python's \<open>None\<close>.
\<close>

record diff_line =
  line_type :: string
  line_value :: string
  source_line_no :: "int option"
  target_line_no :: "int option"

record hunk =
  source_start :: int
  source_length :: int
  target_start :: int
  target_length :: int
  hunk_lines :: "diff_line list"

record file_change =
  path :: string
  additions :: int
  deletions :: int
  hunks :: "hunk list"

record parsed_diff =
  files :: "file_change list"
  raw_content :: string

text \<open>
  The test of \<open>get_file_context\<close> on one line:
  \<open>line["target_line_no"] and abs(line["target_line_no"] - line_number) <= context_lines\<close>.
  The left operand is a truth test, so both \<open>None\<close> and \<open>0\<close> fail it.
\<close>

definition in_context :: "diff_line \<Rightarrow> int \<Rightarrow> int \<Rightarrow> bool" where
  "in_context l line_number context_lines =
     (case target_line_no l of
        None \<Rightarrow> False
      | Some t \<Rightarrow> t \<noteq> 0 \<and> \<bar>t - line_number\<bar> \<le> context_lines)"

text \<open>\<open>f"{line['target_line_no']}: {line['value']}"\<close>; \<open>None\<close> prints as \<open>None\<close>.\<close>

definition context_entry :: "diff_line \<Rightarrow> string" where
  "context_entry l =
     (case target_line_no l of None \<Rightarrow> ''None'' | Some t \<Rightarrow> show_int t) @ '': '' @ line_value l"

text \<open>
  The inner loop over the lines of a hunk; \<open>acc\<close> is the list that the source names
  \<open>context\<close>.
\<close>

fun context_lines_loop :: "diff_line list \<Rightarrow> int \<Rightarrow> int \<Rightarrow> string list \<Rightarrow> string list" where
  "context_lines_loop [] line_number context_lines acc = acc"
| "context_lines_loop (l # ls) line_number context_lines acc =
     context_lines_loop ls line_number context_lines
       (if in_context l line_number context_lines then acc @ [context_entry l] else acc)"

text \<open>The loop over the hunks of the file.\<close>

fun context_hunks_loop :: "hunk list \<Rightarrow> int \<Rightarrow> int \<Rightarrow> string list \<Rightarrow> string list" where
  "context_hunks_loop [] line_number context_lines acc = acc"
| "context_hunks_loop (h # hs) line_number context_lines acc =
     context_hunks_loop hs line_number context_lines
       (context_lines_loop (hunk_lines h) line_number context_lines acc)"

text \<open>The outer loop: the first file whose path matches decides the result.\<close>

fun context_files_loop :: "file_change list \<Rightarrow> string \<Rightarrow> int \<Rightarrow> int \<Rightarrow> string" where
  "context_files_loop [] file_path line_number context_lines = ''''"
| "context_files_loop (fc # fcs) file_path line_number context_lines =
     (if path fc = file_path
      then join ''\<newline>'' (context_hunks_loop (hunks fc) line_number context_lines [])
      else context_files_loop fcs file_path line_number context_lines)"

definition get_file_context :: "parsed_diff \<Rightarrow> string \<Rightarrow> int \<Rightarrow> int \<Rightarrow> string" where
  "get_file_context diff file_path line_number context_lines =
     context_files_loop (files diff) file_path line_number context_lines"

text \<open>
  The specification's reading of the same query: the lines of the named file whose
  target line number lies within the window, formatted and newline-joined.
\<close>

definition within_window :: "diff_line \<Rightarrow> int \<Rightarrow> int \<Rightarrow> bool" where
  "within_window l line_number window =
     (case target_line_no l of None \<Rightarrow> False | Some t \<Rightarrow> \<bar>t - line_number\<bar> \<le> window)"

definition file_lines :: "file_change \<Rightarrow> diff_line list" where
  "file_lines fc = concat (map hunk_lines (hunks fc))"

definition get_file_context_spec :: "parsed_diff \<Rightarrow> string \<Rightarrow> int \<Rightarrow> int \<Rightarrow> string" where
  "get_file_context_spec diff file_path line_number window =
     (case find (\<lambda>fc. path fc = file_path) (files diff) of
        None \<Rightarrow> ''''
      | Some fc \<Rightarrow>
          join ''\<newline>''
            (map context_entry (filter (\<lambda>l. within_window l line_number window) (file_lines fc))))"

text \<open>A diff whose only line carries target line number 0.\<close>

definition zero_line_diff :: parsed_diff where
  "zero_line_diff =
     \<lparr>files =
        [\<lparr>path = ''a.py'', additions = 1, deletions = 0,
          hunks =
            [\<lparr>source_start = 0, source_length = 0, target_start = 0, target_length = 1,
              hunk_lines =
                [\<lparr>line_type = ''+'', line_value = ''x'', source_line_no = None,
                  target_line_no = Some 0\<rparr>]\<rparr>]\<rparr>],
      raw_content = ''''\<rparr>"

text \<open>A diff with two hunks in one file and a second file.\<close>

definition sample_diff :: parsed_diff where
  "sample_diff =
     \<lparr>files =
        [\<lparr>path = ''a.py'', additions = 2, deletions = 1,
          hunks =
            [\<lparr>source_start = 1, source_length = 2, target_start = 1, target_length = 2,
              hunk_lines =
                [\<lparr>line_type = '' '', line_value = ''import os'', source_line_no = Some 1,
                  target_line_no = Some 1\<rparr>,
                 \<lparr>line_type = ''-'', line_value = ''x = 1'', source_line_no = Some 2,
                  target_line_no = None\<rparr>,
                 \<lparr>line_type = ''+'', line_value = ''x = 2'', source_line_no = None,
                  target_line_no = Some 2\<rparr>]\<rparr>,
             \<lparr>source_start = 10, source_length = 0, target_start = 10, target_length = 1,
              hunk_lines =
                [\<lparr>line_type = ''+'', line_value = ''print(x)'', source_line_no = None,
                  target_line_no = Some 10\<rparr>]\<rparr>]\<rparr>,
         \<lparr>path = ''b.py'', additions = 1, deletions = 0,
          hunks =
            [\<lparr>source_start = 0, source_length = 0, target_start = 1, target_length = 1,
              hunk_lines =
                [\<lparr>line_type = ''+'', line_value = ''pass'', source_line_no = None,
                  target_line_no = Some 1\<rparr>]\<rparr>]\<rparr>],
      raw_content = ''''\<rparr>"

section \<open>Feedback store (\<open>services/vector_store.py\<close>)\<close>

subsection \<open>Metadata dictionaries\<close>

text \<open>
  A metadata value is what the program itself writes into the collection: a string or an
  integer. A metadata dictionary is an association list in insertion order, read with
  \<open>map_of\<close> and written with \<open>AList.update\<close> (replace in place, else append), as a
  Python \<open>dict\<close> behaves.
\<close>

datatype mval = VStr string | VInt int

type_synonym metadata = "(string \<times> mval) list"

text \<open>\<open>d.get(key, default)\<close>.\<close>

definition dget :: "metadata \<Rightarrow> string \<Rightarrow> mval \<Rightarrow> mval" where
  "dget d k dflt = (case map_of d k of None \<Rightarrow> dflt | Some v \<Rightarrow> v)"

text \<open>Python's truth test and \<open>str()\<close> on a metadata value.\<close>

fun truthy :: "mval \<Rightarrow> bool" where
  "truthy (VStr s) = (s \<noteq> [])"
| "truthy (VInt i) = (i \<noteq> 0)"

fun str_of_mval :: "mval \<Rightarrow> string" where
  "str_of_mval (VStr s) = s"
| "str_of_mval (VInt i) = show_int i"

text \<open>
  Ordering of metadata values. Python orders strings lexicographically and integers
  numerically, and raises \<open>TypeError\<close> when a string meets an integer; the functions
  below that sort or take a minimum check \<open>homogeneous\<close> first and raise then, so the
  order between the two kinds (integers first) is never consulted.
\<close>

fun mval_le :: "mval \<Rightarrow> mval \<Rightarrow> bool" where
  "mval_le (VStr s) (VStr t) = (s \<le> t)"
| "mval_le (VInt i) (VInt j) = (i \<le> j)"
| "mval_le (VInt i) (VStr t) = True"
| "mval_le (VStr s) (VInt j) = False"

instantiation mval :: linorder
begin

definition less_eq_mval :: "mval \<Rightarrow> mval \<Rightarrow> bool" where
  "less_eq_mval x y = mval_le x y"

definition less_mval :: "mval \<Rightarrow> mval \<Rightarrow> bool" where
  "less_mval x y = (mval_le x y \<and> \<not> mval_le y x)"

instance
proof
  fix x y z :: mval
  show "(x < y) = (x \<le> y \<and> \<not> y \<le> x)"
    by (simp add: less_mval_def less_eq_mval_def)
  show "x \<le> x"
    by (cases x) (simp_all add: less_eq_mval_def)
  show "x \<le> y \<Longrightarrow> y \<le> z \<Longrightarrow> x \<le> z"
    by (cases x; cases y; cases z) (auto simp: less_eq_mval_def)
  show "x \<le> y \<Longrightarrow> y \<le> x \<Longrightarrow> x = y"
    by (cases x; cases y) (auto simp: less_eq_mval_def)
  show "x \<le> y \<or> y \<le> x"
    by (cases x; cases y) (auto simp: less_eq_mval_def)
qed

end

fun same_kind :: "mval \<Rightarrow> mval \<Rightarrow> bool" where
  "same_kind (VStr s) (VStr t) = True"
| "same_kind (VInt i) (VInt j) = True"
| "same_kind x y = False"

fun homogeneous :: "mval list \<Rightarrow> bool" where
  "homogeneous [] = True"
| "homogeneous (x # xs) = list_all (same_kind x) xs"

text \<open>\<open>min(xs)\<close>.\<close>

fun py_min :: "mval list \<Rightarrow> error + mval" where
  "py_min [] = Inl ValueError"
| "py_min (x # xs) = (if homogeneous (x # xs) then Inr (fold min xs x) else Inl TypeError)"

text \<open>
  \<open>sorted(xs, key=key, reverse=True)\<close>: descending, and stable (elements with equal keys
  keep their original order).
\<close>

definition py_sorted_reverse :: "('a \<Rightarrow> mval) \<Rightarrow> 'a list \<Rightarrow> error + 'a list" where
  "py_sorted_reverse key xs =
     (if homogeneous (map key xs) then Inr (rev (sort_key key (rev xs))) else Inl TypeError)"

text \<open>\<open>xs[:limit]\<close>; a negative limit counts from the end.\<close>

definition py_take :: "int \<Rightarrow> 'a list \<Rightarrow> 'a list" where
  "py_take limit xs =
     (if 0 \<le> limit then take (nat limit) xs else take (length xs - nat (- limit)) xs)"

subsection \<open>The collection\<close>

text \<open>
  The suggestions collection of the similarity index, as the list of its entries in the
  order \<open>get()\<close> returns them. \<open>coll_get\<close> selects the entries whose metadata has every
  key of a filter with the filter's value. \<open>coll_update\<close> is
  \<open>update(ids=[doc_id], metadatas=[m])\<close>; the dictionary that \<open>store_feedback\<close> passes
  extends the stored one, so replacing and merging coincide. Every entry carries a
  metadata dictionary: \<open>store_review_context\<close> is the only writer of the collection and
  always passes one.
\<close>

record entry =
  entry_id :: string
  document :: string
  metadata :: metadata

definition matches_where :: "metadata \<Rightarrow> metadata \<Rightarrow> bool" where
  "matches_where wh m = list_all (\<lambda>kv. map_of m (fst kv) = Some (snd kv)) wh"

definition coll_get :: "metadata \<Rightarrow> entry list \<Rightarrow> entry list" where
  "coll_get wh coll = filter (\<lambda>e. matches_where wh (metadata e)) coll"

text \<open>
  \<open>get(where=...)\<close> as the collection checks it: a filter is one condition, and two
  conditions have to be joined by an explicit \<open>$and\<close>; for a dictionary that does not have
  exactly one key the call raises \<open>ValueError\<close> before anything is looked up.
\<close>

definition coll_get_where :: "metadata \<Rightarrow> entry list \<Rightarrow> error + entry list" where
  "coll_get_where wh coll = (if length wh = 1 then Inr (coll_get wh coll) else Inl ValueError)"

definition coll_update :: "string \<Rightarrow> metadata \<Rightarrow> entry list \<Rightarrow> entry list" where
  "coll_update doc_id m coll =
     map (\<lambda>e. if entry_id e = doc_id then e\<lparr>metadata := m\<rparr> else e) coll"

subsection \<open>\<open>find_similar_code\<close>\<close>

text \<open>
  The result of \<open>suggestions_collection.query\<close>: the values under \<open>"documents"\<close> and
  \<open>"metadatas"\<close> (\<open>None\<close> when the key is missing or holds \<open>None\<close>), each a list with one
  inner list per query text. The index returns \<open>None\<close> for the metadata of an entry that
  was stored without any.
\<close>

record query_result =
  qr_documents :: "string list list option"
  qr_metadatas :: "metadata option list list option"

text \<open>The dictionary that \<open>find_similar_code\<close> builds for one retrieved entry.\<close>

record similar_review =
  sr_code_context :: string
  sr_suggestion :: mval
  sr_action :: mval
  sr_reason :: mval
  sr_category :: mval
  sr_confidence :: mval

definition feedback_actions :: "mval list" where
  "feedback_actions = [VStr ''accept'', VStr ''reject'', VStr ''edit'']"

text \<open>
  The loop \<open>for i in range(len(results["documents"][0]))\<close>: \<open>docs\<close> and \<open>mds\<close> are the
  documents and metadatas from index \<open>i\<close> on, so \<open>metadatas[0][i] if i < len(metadatas[0])
  else {}\<close> is the head of \<open>mds\<close>, or the empty dictionary. Calling \<open>.get\<close> on \<open>None\<close>
  raises \<open>AttributeError\<close>. The loop breaks once \<open>len(similar_reviews) >= limit\<close>.
\<close>

fun similar_loop ::
  "string list \<Rightarrow> metadata option list \<Rightarrow> int \<Rightarrow> similar_review list \<Rightarrow>
   error + similar_review list" where
  "similar_loop [] mds limit similar_reviews = Inr similar_reviews"
| "similar_loop (doc # docs) mds limit similar_reviews =
     (case (case mds of [] \<Rightarrow> Some [] | m # ms \<Rightarrow> m) of
        None \<Rightarrow> Inl AttributeError
      | Some md \<Rightarrow>
          (let action = dget md ''action'' (VStr ''pending'');
               similar_reviews' =
                 (if action \<in> set feedback_actions
                  then similar_reviews @
                    [\<lparr>sr_code_context = doc,
                      sr_suggestion = dget md ''suggestion'' (VStr ''''),
                      sr_action = action,
                      sr_reason = dget md ''reason'' (VStr ''''),
                      sr_category = dget md ''category'' (VStr ''''),
                      sr_confidence = dget md ''confidence'' (VInt 0)\<rparr>]
                  else similar_reviews)
           in if limit \<le> int (length similar_reviews') then Inr similar_reviews'
              else similar_loop docs (tl mds) limit similar_reviews'))"

text \<open>
  \<open>find_similar_code\<close>. The parameter \<open>query\<close> is the collaborator's similarity search,
  called with the query text and \<open>n_results\<close>; it returns its result or raises. Both
  \<open>except\<close> clauses return the empty list. \<open>metadatas0\<close> is \<open>metadatas[0]\<close> after
  \<open>if not metadatas: metadatas = [[]]\<close>.
\<close>

definition find_similar_code ::
  "(string \<Rightarrow> int \<Rightarrow> error + query_result) \<Rightarrow> string \<Rightarrow> int \<Rightarrow> similar_review list" where
  "find_similar_code query code_context limit =
     (case query code_context (min (limit * 3) 20) of
        Inl e \<Rightarrow> []
      | Inr results \<Rightarrow>
          (case qr_documents results of
             None \<Rightarrow> []
           | Some [] \<Rightarrow> []
           | Some (docs0 # _) \<Rightarrow>
               if docs0 = [] then []
               else
                 (let metadatas0 =
                    (case qr_metadatas results of
                       None \<Rightarrow> []
                     | Some [] \<Rightarrow> []
                     | Some (m # ms) \<Rightarrow> m)
                  in case similar_loop docs0 metadatas0 limit [] of
                       Inl e \<Rightarrow> []
                     | Inr similar_reviews \<Rightarrow> similar_reviews)))"

text \<open>
  The interface of the similarity query as the specification gives it: a successful
  call returns no more documents than the \<open>n_results\<close> it was asked for.
\<close>

definition returns_at_most :: "(string \<Rightarrow> int \<Rightarrow> error + query_result) \<Rightarrow> string \<Rightarrow> int \<Rightarrow> bool" where
  "returns_at_most query query_text n_results =
     (case query query_text n_results of
        Inl e \<Rightarrow> True
      | Inr results \<Rightarrow>
          (case qr_documents results of
             Some (docs0 # ds) \<Rightarrow> int (length docs0) \<le> max 0 n_results
           | _ \<Rightarrow> True))"

subsection \<open>\<open>store_feedback\<close>\<close>

text \<open>\<open>reason or ""\<close> on an optional string.\<close>

definition str_or_empty :: "string option \<Rightarrow> string" where
  "str_or_empty x = (case x of None \<Rightarrow> '''' | Some s \<Rightarrow> if s = [] then '''' else s)"

definition feedback_where :: "string \<Rightarrow> string \<Rightarrow> metadata" where
  "feedback_where review_id suggestion_id =
     [(''review_id'', VStr review_id), (''suggestion_id'', VStr suggestion_id)]"

text \<open>
  The dictionary \<open>updated_metadata\<close>; \<open>now\<close> is \<open>datetime.utcnow().isoformat()\<close>. The
  test \<open>if edited_suggestion:\<close> fails for \<open>None\<close> and for the empty string.
\<close>

definition updated_metadata ::
  "metadata \<Rightarrow> string \<Rightarrow> string option \<Rightarrow> string option \<Rightarrow> string \<Rightarrow> metadata" where
  "updated_metadata md action reason edited_suggestion now =
     (let m1 = AList.update ''action'' (VStr action) md;
          m2 = AList.update ''reason'' (VStr (str_or_empty reason)) m1;
          m3 = AList.update ''feedback_timestamp'' (VStr now) m2
      in case edited_suggestion of
           None \<Rightarrow> m3
         | Some edited \<Rightarrow>
             if edited = [] then m3
             else AList.update ''suggestion'' (VStr edited)
                    (AList.update ''edited_suggestion'' (VStr edited) m3))"

text \<open>
  \<open>store_feedback\<close>, returning the collection after the call. The lookup passes the
  filter \<open>{"review_id": review_id, "suggestion_id": suggestion_id}\<close> to \<open>get\<close>. When the
  lookup raises, the \<open>except\<close> clause around the whole body prints the exception and the
  call returns; when it finds nothing the source prints a warning; otherwise the first
  match is updated.
\<close>

definition store_feedback ::
  "entry list \<Rightarrow> string \<Rightarrow> string \<Rightarrow> string \<Rightarrow> string option \<Rightarrow> string option \<Rightarrow> string \<Rightarrow>
   entry list" where
  "store_feedback coll review_id suggestion_id action reason edited_suggestion now =
     (case coll_get_where (feedback_where review_id suggestion_id) coll of
        Inl e \<Rightarrow> coll
      | Inr [] \<Rightarrow> coll
      | Inr (e # _) \<Rightarrow>
          coll_update (entry_id e)
            (updated_metadata (metadata e) action reason edited_suggestion now) coll)"

text \<open>
  What the collection holds, per entry, under the keys that feedback is meant to write.
\<close>

definition feedback_view :: "entry \<Rightarrow> string \<times> mval option list" where
  "feedback_view e =
     (entry_id e,
      map (map_of (metadata e))
        [''action'', ''reason'', ''feedback_timestamp'', ''suggestion'', ''edited_suggestion''])"

subsection \<open>\<open>get_review\<close> and \<open>get_recent_reviews\<close>\<close>

text \<open>The dictionaries that \<open>get_review\<close> returns.\<close>

record suggestion_view =
  sv_id :: mval
  sv_line_number :: mval
  sv_category :: mval
  sv_suggestion :: mval
  sv_confidence :: mval
  sv_action :: mval

record file_group =
  fg_file_path :: mval
  fg_suggestions :: "suggestion_view list"

record review =
  rv_review_id :: mval
  rv_files :: "file_group list"
  rv_created_at :: mval
  rv_suggestion_count :: int

text \<open>
  The loop of \<open>get_review\<close> that groups the suggestions by file; \<open>file_groups\<close> is the
  dictionary \<open>files\<close> of the source, keyed by file path, in insertion order.
\<close>

fun group_by_file :: "metadata list \<Rightarrow> (mval \<times> file_group) list \<Rightarrow> (mval \<times> file_group) list" where
  "group_by_file [] file_groups = file_groups"
| "group_by_file (md # mds) file_groups =
     (let file_path = dget md ''file_path'' (VStr ''unknown'');
          file_groups1 =
            (if map_of file_groups file_path = None
             then AList.update file_path \<lparr>fg_file_path = file_path, fg_suggestions = []\<rparr> file_groups
             else file_groups);
          sv =
            \<lparr>sv_id = dget md ''suggestion_id'' (VStr ''''),
             sv_line_number = dget md ''line_number'' (VInt 0),
             sv_category = dget md ''category'' (VStr ''''),
             sv_suggestion = dget md ''suggestion'' (VStr ''''),
             sv_confidence = dget md ''confidence'' (VInt 0),
             sv_action = dget md ''action'' (VStr ''pending'')\<rparr>
      in group_by_file mds
           (AList.map_entry file_path
              (\<lambda>g. g\<lparr>fg_suggestions := fg_suggestions g @ [sv]\<rparr>) file_groups1))"

text \<open>\<open>[m.get("timestamp", "") for m in metadatas if m.get("timestamp")]\<close>.\<close>

definition truthy_timestamps :: "metadata list \<Rightarrow> mval list" where
  "truthy_timestamps mds =
     map (\<lambda>m. dget m ''timestamp'' (VStr ''''))
       (filter (\<lambda>m. case map_of m ''timestamp'' of None \<Rightarrow> False | Some v \<Rightarrow> truthy v) mds)"

text \<open>
  \<open>get_review\<close>: \<open>None\<close> when no entry has the review id, and also when the body raises
  (\<open>min\<close> over timestamps of mixed kinds). \<open>clock\<close> gives \<open>datetime.utcnow().isoformat()\<close>
  at the call for the given review id; it is read only when no entry has a timestamp.
\<close>

definition get_review :: "(mval \<Rightarrow> string) \<Rightarrow> entry list \<Rightarrow> mval \<Rightarrow> review option" where
  "get_review clock coll review_id =
     (case coll_get [(''review_id'', review_id)] coll of
        [] \<Rightarrow> None
      | r # rs \<Rightarrow>
          (let mds = map metadata (r # rs);
               file_groups = group_by_file mds [];
               timestamps = truthy_timestamps mds
           in case (if timestamps = [] then Inr (VStr (clock review_id)) else py_min timestamps) of
                Inl e \<Rightarrow> None
              | Inr created \<Rightarrow>
                  Some \<lparr>rv_review_id = review_id, rv_files = map snd file_groups,
                        rv_created_at = created,
                        rv_suggestion_count = int (length (r # rs))\<rparr>))"

text \<open>
  The loop of \<open>get_recent_reviews\<close> that fills the set \<open>review_ids\<close>, kept here as the
  list of its elements in order of first insertion.
\<close>

fun collect_review_ids :: "metadata list \<Rightarrow> mval list \<Rightarrow> mval list" where
  "collect_review_ids [] review_ids = review_ids"
| "collect_review_ids (md # mds) review_ids =
     collect_review_ids mds
       (case map_of md ''review_id'' of
          None \<Rightarrow> review_ids
        | Some r \<Rightarrow> if r \<in> set review_ids then review_ids else review_ids @ [r])"

text \<open>The loop that loads the reviews, skipping an id for which \<open>get_review\<close> gives \<open>None\<close>.\<close>

fun load_reviews :: "(mval \<Rightarrow> string) \<Rightarrow> entry list \<Rightarrow> mval list \<Rightarrow> review list \<Rightarrow> review list" where
  "load_reviews clock coll [] reviews = reviews"
| "load_reviews clock coll (review_id # ids) reviews =
     load_reviews clock coll ids
       (case get_review clock coll review_id of
          None \<Rightarrow> reviews
        | Some rv \<Rightarrow> reviews @ [rv])"

text \<open>
  \<open>get_recent_reviews\<close>. The order in which \<open>list(review_ids)\<close> enumerates a Python set
  of strings depends on their hashes, which vary from process to process; \<open>set_order\<close>
  is that enumeration, applied to the elements of the set. The slice \<open>[:limit]\<close> is taken
  before the reviews are loaded and sorted; a failing sort returns the empty list.
\<close>

definition get_recent_reviews ::
  "(mval list \<Rightarrow> mval list) \<Rightarrow> (mval \<Rightarrow> string) \<Rightarrow> entry list \<Rightarrow> int \<Rightarrow> review list" where
  "get_recent_reviews set_order clock coll limit =
     (let review_ids = collect_review_ids (map metadata coll) [];
          reviews = load_reviews clock coll (py_take limit (set_order review_ids)) []
      in case py_sorted_reverse rv_created_at reviews of
           Inl e \<Rightarrow> []
         | Inr sorted_reviews \<Rightarrow> sorted_reviews)"

section \<open>Statistics (\<open>services/stats_service.py\<close>)\<close>

text \<open>
  The counters of the two \<open>defaultdict\<close>s, and one entry of \<open>recent_patterns\<close>.
\<close>

record category_counts =
  cc_accept :: int
  cc_reject :: int
  cc_edit :: int

record confidence_counts =
  cf_accept :: int
  cf_reject :: int

record pattern =
  pt_category :: mval
  pt_action :: mval
  pt_confidence :: mval
  pt_timestamp :: mval

text \<open>The local variables that the counting loop updates.\<close>

record tally =
  t_accepts :: int
  t_rejects :: int
  t_edits :: int
  t_by_category :: "(mval \<times> category_counts) list"
  t_by_confidence :: "(string \<times> confidence_counts) list"

text \<open>
  \<open>round(x, 2)\<close>: the nearest number with two decimals, a tie going to the even last
  digit. The percentage is computed on rationals, so the rounding error of the
  floating-point quotient, which can move a value across a tie, is not modelled.
\<close>

definition round_half_even :: "rat \<Rightarrow> int" where
  "round_half_even q =
     (let f = \<lfloor>q\<rfloor>; d = q - of_int f
      in if d < 1 / 2 then f else if 1 / 2 < d then f + 1 else if even f then f else f + 1)"

definition py_round2 :: "rat \<Rightarrow> rat" where
  "py_round2 q = of_int (round_half_even (q * 100)) / 100"

text \<open>
  The dictionary that \<open>get_statistics\<close> returns. A key that a given return statement
  leaves out is \<open>None\<close>; \<open>st_error\<close> is the caught exception, whose text the source stores.
  \<open>acceptance_rate\<close> is a number with two decimals.
\<close>

record statistics =
  st_error :: "error option"
  total_feedback :: int
  acceptance_rate :: rat
  accepts :: "int option"
  rejects :: "int option"
  edits :: "int option"
  by_category :: "(mval \<times> category_counts) list option"
  by_confidence :: "(string \<times> confidence_counts) list option"
  recent_patterns :: "pattern list option"

text \<open>\<open>d[key][field] += 1\<close> on a \<open>defaultdict\<close>: a missing key is created first.\<close>

definition bump :: "'k \<Rightarrow> 'v \<Rightarrow> ('v \<Rightarrow> 'v) \<Rightarrow> ('k \<times> 'v) list \<Rightarrow> ('k \<times> 'v) list" where
  "bump k zero f d =
     AList.map_entry k f (if map_of d k = None then AList.update k zero d else d)"

definition zero_category :: category_counts where
  "zero_category = \<lparr>cc_accept = 0, cc_reject = 0, cc_edit = 0\<rparr>"

definition zero_confidence :: confidence_counts where
  "zero_confidence = \<lparr>cf_accept = 0, cf_reject = 0\<rparr>"

text \<open>
  \<open>f"{(confidence // 20) * 20}-{(confidence // 20) * 20 + 19}"\<close>; floor division of a
  string raises \<open>TypeError\<close>.
\<close>

definition confidence_range :: "mval \<Rightarrow> error + string" where
  "confidence_range confidence =
     (case confidence of
        VStr s \<Rightarrow> Inl TypeError
      | VInt c \<Rightarrow> Inr (show_int (c div 20 * 20) @ ''-'' @ show_int (c div 20 * 20 + 19)))"

text \<open>The body of the counting loop for one item of \<open>feedback_items\<close>.\<close>

definition tally_step :: "metadata \<Rightarrow> tally \<Rightarrow> error + tally" where
  "tally_step md t =
     (let action = dget md ''action'' (VStr '''');
          category = dget md ''category'' (VStr ''unknown'');
          confidence = dget md ''confidence'' (VInt 50);
          t1 =
            (if action = VStr ''accept''
             then t\<lparr>t_accepts := t_accepts t + 1,
                    t_by_category :=
                      bump category zero_category (\<lambda>c. c\<lparr>cc_accept := cc_accept c + 1\<rparr>)
                        (t_by_category t)\<rparr>
             else if action = VStr ''reject''
             then t\<lparr>t_rejects := t_rejects t + 1,
                    t_by_category :=
                      bump category zero_category (\<lambda>c. c\<lparr>cc_reject := cc_reject c + 1\<rparr>)
                        (t_by_category t)\<rparr>
             else if action = VStr ''edit''
             then t\<lparr>t_edits := t_edits t + 1,
                    t_by_category :=
                      bump category zero_category (\<lambda>c. c\<lparr>cc_edit := cc_edit c + 1\<rparr>)
                        (t_by_category t)\<rparr>
             else t)
      in case confidence_range confidence of
           Inl e \<Rightarrow> Inl e
         | Inr conf_range \<Rightarrow>
             Inr (if action = VStr ''accept''
                  then t1\<lparr>t_by_confidence :=
                            bump conf_range zero_confidence (\<lambda>c. c\<lparr>cf_accept := cf_accept c + 1\<rparr>)
                              (t_by_confidence t1)\<rparr>
                  else if action = VStr ''reject''
                  then t1\<lparr>t_by_confidence :=
                            bump conf_range zero_confidence (\<lambda>c. c\<lparr>cf_reject := cf_reject c + 1\<rparr>)
                              (t_by_confidence t1)\<rparr>
                  else t1))"

fun tally_loop :: "metadata list \<Rightarrow> tally \<Rightarrow> error + tally" where
  "tally_loop [] t = Inr t"
| "tally_loop (md # mds) t =
     (case tally_step md t of Inl e \<Rightarrow> Inl e | Inr t' \<Rightarrow> tally_loop mds t')"

text \<open>
  The first loop: the metadata of the entries whose action is accept, reject or edit.
\<close>

fun feedback_items_loop :: "entry list \<Rightarrow> metadata list \<Rightarrow> metadata list" where
  "feedback_items_loop [] feedback_items = feedback_items"
| "feedback_items_loop (e # es) feedback_items =
     feedback_items_loop es
       (if dget (metadata e) ''action'' (VStr ''pending'') \<in> set feedback_actions
        then feedback_items @ [metadata e]
        else feedback_items)"

text \<open>The sort key and the entries of \<open>recent_patterns\<close>.\<close>

definition feedback_time :: "metadata \<Rightarrow> mval" where
  "feedback_time md = dget md ''feedback_timestamp'' (dget md ''timestamp'' (VStr ''''))"

definition pattern_of :: "metadata \<Rightarrow> pattern" where
  "pattern_of md =
     \<lparr>pt_category = dget md ''category'' (VStr ''''),
      pt_action = dget md ''action'' (VStr ''''),
      pt_confidence = dget md ''confidence'' (VInt 0),
      pt_timestamp = feedback_time md\<rparr>"

text \<open>The \<open>try\<close> block of \<open>get_statistics\<close>.\<close>

definition statistics_body :: "entry list \<Rightarrow> error + statistics" where
  "statistics_body coll =
     (let feedback_items = feedback_items_loop coll []
      in if feedback_items = []
         then Inr \<lparr>st_error = None, total_feedback = 0, acceptance_rate = 0,
                   accepts = None, rejects = None, edits = None,
                   by_category = Some [], by_confidence = Some [], recent_patterns = Some []\<rparr>
         else
           (case tally_loop feedback_items
                   \<lparr>t_accepts = 0, t_rejects = 0, t_edits = 0, t_by_category = [],
                    t_by_confidence = []\<rparr> of
              Inl e \<Rightarrow> Inl e
            | Inr t \<Rightarrow>
                (case py_sorted_reverse feedback_time feedback_items of
                   Inl e \<Rightarrow> Inl e
                 | Inr sorted_items \<Rightarrow>
                     Inr \<lparr>st_error = None,
                          total_feedback = int (length feedback_items),
                          acceptance_rate =
                            py_round2
                              (of_int (t_accepts t) / of_int (int (length feedback_items)) * 100),
                          accepts = Some (t_accepts t),
                          rejects = Some (t_rejects t),
                          edits = Some (t_edits t),
                          by_category = Some (t_by_category t),
                          by_confidence = Some (t_by_confidence t),
                          recent_patterns = Some (map pattern_of (take 10 sorted_items))\<rparr>)))"

text \<open>
  \<open>get_statistics\<close>, as the outcome of the call: the \<open>except\<close> clause turns every
  exception of the body into a returned dictionary.
\<close>

definition get_statistics :: "entry list \<Rightarrow> error + statistics" where
  "get_statistics coll =
     (case statistics_body coll of
        Inl e \<Rightarrow>
          Inr \<lparr>st_error = Some e, total_feedback = 0, acceptance_rate = 0,
                accepts = None, rejects = None, edits = None,
                by_category = None, by_confidence = None, recent_patterns = None\<rparr>
      | Inr s \<Rightarrow> Inr s)"

text \<open>The zeroed structure of the specification.\<close>

definition zeroed_statistics :: statistics where
  "zeroed_statistics =
     \<lparr>st_error = None, total_feedback = 0, acceptance_rate = 0,
      accepts = None, rejects = None, edits = None,
      by_category = Some [], by_confidence = Some [], recent_patterns = Some []\<rparr>"

definition has_feedback :: "entry \<Rightarrow> bool" where
  "has_feedback e \<longleftrightarrow> dget (metadata e) ''action'' (VStr ''pending'') \<in> set feedback_actions"

section \<open>Suggestion generator and orchestrator (\<open>services/review_service.py\<close>)\<close>

subsection \<open>String operations\<close>

text \<open>
  \<open>sub in s\<close>, \<open>s.split(sep)\<close> for a non-empty separator, and \<open>s.strip()\<close>. A character is
  a code point below 256; \<open>strip\<close> removes the ones for which \<open>str.isspace\<close> holds: the
  ASCII white space, the separators U+001C to U+001F, U+0085 and U+00A0.
\<close>

fun contains :: "string \<Rightarrow> string \<Rightarrow> bool" where
  "contains sub [] = (sub = [])"
| "contains sub (c # cs) = (prefix sub (c # cs) \<or> contains sub cs)"

function split_pieces :: "string \<Rightarrow> string \<Rightarrow> string \<Rightarrow> string list" where
  "split_pieces sep piece [] = [piece]"
| "split_pieces sep piece (c # cs) =
     (if sep \<noteq> [] \<and> prefix sep (c # cs)
      then piece # split_pieces sep [] (drop (length sep) (c # cs))
      else split_pieces sep (piece @ [c]) cs)"
  by pat_completeness auto
termination
  by (relation "measure (\<lambda>(sep, piece, s). length s)") (auto simp: neq_Nil_conv)

definition py_split :: "string \<Rightarrow> string \<Rightarrow> string list" where
  "py_split s sep = split_pieces sep [] s"

definition is_space :: "char \<Rightarrow> bool" where
  "is_space c \<longleftrightarrow>
     c \<in> set [CHR '' '', CHR 0x09, CHR 0x0A, CHR 0x0B, CHR 0x0C, CHR 0x0D,
              CHR 0x1C, CHR 0x1D, CHR 0x1E, CHR 0x1F, CHR 0x85, CHR 0xA0]"

definition py_strip :: "string \<Rightarrow> string" where
  "py_strip s = rev (dropWhile is_space (rev (dropWhile is_space s)))"

subsection \<open>Suggestions and the environment of the service\<close>

text \<open>The pydantic model \<open>Suggestion\<close> of \<open>models.py\<close>.\<close>

record suggestion =
  sg_id :: string
  sg_line_number :: int
  sg_end_line_number :: "int option"
  sg_file_path :: string
  sg_category :: string
  sg_suggestion :: string
  sg_confidence :: int
  sg_code_snippet :: string

text \<open>A value returned by \<open>json.loads\<close>; a number that is not an integer keeps its text.\<close>

datatype json =
    JNull
  | JBool bool
  | JInt int
  | JFloat string
  | JStr string
  | JArr "json list"
  | JObj "(string \<times> json) list"

text \<open>
  What the service reads from its surroundings: the configured threshold, the similarity
  query of the index, the generation engine, \<open>json.loads\<close> (\<open>None\<close> for
  \<open>JSONDecodeError\<close>), pydantic's validation of an \<open>int\<close> and of a \<open>str\<close> field (\<open>None\<close> for
  a validation error), and the identifiers that successive calls of \<open>uuid.uuid4()\<close> give.
\<close>

record review_env =
  min_confidence :: int
  similarity_query :: "string \<Rightarrow> int \<Rightarrow> error + query_result"
  llm_invoke :: "string \<Rightarrow> error + string"
  json_loads :: "string \<Rightarrow> json option"
  validate_int :: "json \<Rightarrow> int option"
  validate_str :: "json \<Rightarrow> string option"
  uuid4 :: "nat \<Rightarrow> string"

subsection \<open>\<open>_build_code_context\<close>\<close>

text \<open>\<open>line["target_line_no"] or line["source_line_no"] or 0\<close>.\<close>

definition line_num :: "diff_line \<Rightarrow> int" where
  "line_num l =
     (case target_line_no l of
        Some t \<Rightarrow> if t \<noteq> 0 then t else (case source_line_no l of Some s \<Rightarrow> s | None \<Rightarrow> 0)
      | None \<Rightarrow> (case source_line_no l of Some s \<Rightarrow> s | None \<Rightarrow> 0))"

fun changed_lines_loop :: "diff_line list \<Rightarrow> string list \<Rightarrow> string list" where
  "changed_lines_loop [] context_lines = context_lines"
| "changed_lines_loop (l # ls) context_lines =
     changed_lines_loop ls
       (if line_type l \<in> set [''+'', ''-'']
        then context_lines @ [line_type l @ '' '' @ show_int (line_num l) @ '': '' @ line_value l]
        else context_lines)"

fun changed_hunks_loop :: "hunk list \<Rightarrow> string list \<Rightarrow> string list" where
  "changed_hunks_loop [] context_lines = context_lines"
| "changed_hunks_loop (h # hs) context_lines =
     changed_hunks_loop hs (changed_lines_loop (hunk_lines h) context_lines)"

definition build_code_context :: "file_change \<Rightarrow> string" where
  "build_code_context fc = join ''\<newline>'' (changed_hunks_loop (hunks fc) [])"

subsection \<open>\<open>_build_review_prompt\<close>\<close>

text \<open>The loop that fills \<open>accepted_patterns\<close> and \<open>rejected_patterns\<close>.\<close>

fun patterns_loop ::
  "similar_review list \<Rightarrow> string list \<times> string list \<Rightarrow> string list \<times> string list" where
  "patterns_loop [] (accepted_patterns, rejected_patterns) = (accepted_patterns, rejected_patterns)"
| "patterns_loop (r # rs) (accepted_patterns, rejected_patterns) =
     patterns_loop rs
       (if sr_action r = VStr ''accept''
        then (accepted_patterns @ [''- '' @ str_of_mval (sr_suggestion r)], rejected_patterns)
        else if sr_action r = VStr ''reject''
        then (accepted_patterns, rejected_patterns @ [''- '' @ str_of_mval (sr_suggestion r)])
        else (accepted_patterns, rejected_patterns))"

text \<open>The string \<open>learned_context\<close> that the prompt embeds.\<close>

definition learned_context :: "similar_review list \<Rightarrow> string" where
  "learned_context similar_reviews =
     (if similar_reviews = [] then ''''
      else
        (let (accepted_patterns, rejected_patterns) = patterns_loop similar_reviews ([], [])
         in if accepted_patterns \<noteq> [] \<or> rejected_patterns \<noteq> []
            then ''\<newline>\<newline>## Learned Preferences:\<newline>'' @
              (if accepted_patterns \<noteq> []
               then ''User typically accepts:\<newline>'' @
                    join ''\<newline>'' (take 3 accepted_patterns) @ ''\<newline>''
               else '''') @
              (if rejected_patterns \<noteq> []
               then ''User typically rejects:\<newline>'' @
                    join ''\<newline>'' (take 3 rejected_patterns) @ ''\<newline>''
               else '''')
            else ''''))"

text \<open>
  The specification's partition of the retrieved feedback into accepted and rejected
  records.
\<close>

definition accepted_feedback :: "similar_review list \<Rightarrow> similar_review list" where
  "accepted_feedback similar_reviews = filter (\<lambda>r. sr_action r = VStr ''accept'') similar_reviews"

definition rejected_feedback :: "similar_review list \<Rightarrow> similar_review list" where
  "rejected_feedback similar_reviews = filter (\<lambda>r. sr_action r = VStr ''reject'') similar_reviews"

text \<open>The fixed text of the prompt, cut at its three placeholders.\<close>

definition prompt_intro :: string where
  "prompt_intro =
     ''You are an expert code reviewer. Analyze the following code changes and provide specific, actionable suggestions.\<newline>\<newline>## File: ''"

definition prompt_changes :: string where
  "prompt_changes = ''\<newline>\<newline>## Code Changes:\<newline>```diff\<newline>''"

definition prompt_guidelines :: string where
  "prompt_guidelines =
     ''\<newline>```\<newline>\<newline>## Review Guidelines:\<newline>'' @
     ''1. Focus on: bugs, performance issues, security vulnerabilities, best practices, and code clarity\<newline>'' @
     ''2. Be specific and actionable - suggest concrete improvements\<newline>'' @
     ''3. Prioritize important issues over style nitpicks\<newline>'' @
     ''4. Provide confidence scores (0-100) for each suggestion\<newline>'' @
     ''5. Categorize suggestions: bug, performance, security, best_practice, readability, style\<newline>''"

definition prompt_format :: string where
  "prompt_format =
     ''\<newline>\<newline>## Output Format (JSON array):\<newline>[\<newline>  {\<newline>'' @
     ''    \"line_number\": <int>,\<newline>'' @
     ''    \"end_line_number\": <int or null>,\<newline>'' @
     ''    \"category\": \"<category>\",\<newline>'' @
     ''    \"suggestion\": \"<detailed suggestion>\",\<newline>'' @
     ''    \"confidence\": <0-100>,\<newline>'' @
     ''    \"code_snippet\": \"<relevant code snippet>\"\<newline>'' @
     ''  }\<newline>]\<newline>\<newline>Provide only the JSON array, no additional text.''"

definition build_review_prompt :: "string \<Rightarrow> string \<Rightarrow> similar_review list \<Rightarrow> string" where
  "build_review_prompt code_context file_path similar_reviews =
     prompt_intro @ file_path @ prompt_changes @ code_context @ prompt_guidelines @
     learned_context similar_reviews @ prompt_format"

subsection \<open>\<open>_parse_llm_response\<close>\<close>

text \<open>
  The extraction of the JSON text from the response. An index beyond the pieces of a
  split raises \<open>IndexError\<close>.
\<close>

definition extract_json :: "string \<Rightarrow> error + string" where
  "extract_json response =
     (let stripped = py_strip response
      in if contains ''```json'' stripped
         then (case py_split stripped ''```json'' of
                 p0 # p1 # ps \<Rightarrow>
                   (case py_split p1 ''```'' of
                      q0 # qs \<Rightarrow> Inr (py_strip q0)
                    | [] \<Rightarrow> Inl IndexError)
               | _ \<Rightarrow> Inl IndexError)
         else if contains ''```'' stripped
         then (case py_split stripped ''```'' of
                 p0 # p1 # ps \<Rightarrow>
                   (case py_split p1 ''```'' of
                      q0 # qs \<Rightarrow> Inr (py_strip q0)
                    | [] \<Rightarrow> Inl IndexError)
               | _ \<Rightarrow> Inl IndexError)
         else Inr stripped)"

text \<open>
  \<open>for sug_data in suggestions_data\<close>: a list yields its elements, a dictionary its keys, a
  string its characters; anything else is not iterable.
\<close>

definition iter_items :: "json \<Rightarrow> error + json list" where
  "iter_items suggestions_data =
     (case suggestions_data of
        JArr xs \<Rightarrow> Inr xs
      | JObj kvs \<Rightarrow> Inr (map (\<lambda>kv. JStr (fst kv)) kvs)
      | JStr s \<Rightarrow> Inr (map (\<lambda>c. JStr [c]) s)
      | _ \<Rightarrow> Inl TypeError)"

text \<open>\<open>d.get(key, default)\<close> on a parsed object.\<close>

definition jget :: "(string \<times> json) list \<Rightarrow> string \<Rightarrow> json \<Rightarrow> json" where
  "jget d k dflt = (case map_of d k of None \<Rightarrow> dflt | Some v \<Rightarrow> v)"

text \<open>
  The construction of one \<open>Suggestion\<close>. An item that is not a dictionary has no \<open>get\<close>
  (\<open>AttributeError\<close>); a field that pydantic rejects raises a validation error.
  \<open>end_line_number\<close> is optional: a missing key and \<open>null\<close> both give \<open>None\<close>.
\<close>

definition make_suggestion :: "review_env \<Rightarrow> string \<Rightarrow> string \<Rightarrow> json \<Rightarrow> error + suggestion" where
  "make_suggestion env new_id file_path sug_data =
     (case sug_data of
        JObj d \<Rightarrow>
          (case (validate_int env (jget d ''line_number'' (JInt 0)),
                 (case jget d ''end_line_number'' JNull of
                    JNull \<Rightarrow> Some None
                  | v \<Rightarrow> map_option Some (validate_int env v)),
                 validate_str env (jget d ''category'' (JStr ''best_practice'')),
                 validate_str env (jget d ''suggestion'' (JStr '''')),
                 validate_int env (jget d ''confidence'' (JInt 50)),
                 validate_str env (jget d ''code_snippet'' (JStr ''''))) of
             (Some line_no, Some end_line_no, Some category, Some body, Some confidence,
              Some snippet) \<Rightarrow>
               Inr \<lparr>sg_id = new_id, sg_line_number = line_no, sg_end_line_number = end_line_no,
                     sg_file_path = file_path, sg_category = category, sg_suggestion = body,
                     sg_confidence = confidence, sg_code_snippet = snippet\<rparr>
           | _ \<Rightarrow> Inl ValidationError)
      | _ \<Rightarrow> Inl AttributeError)"

text \<open>
  The loop over the items. It returns the exception that ended it, if any, the list
  \<open>suggestions\<close> as it stands then, and the number of identifiers drawn so far: an item
  that fails leaves the suggestions appended before it in the list.
\<close>

fun suggestions_loop ::
  "review_env \<Rightarrow> string \<Rightarrow> json list \<Rightarrow> nat \<Rightarrow> suggestion list \<Rightarrow>
   error option \<times> suggestion list \<times> nat" where
  "suggestions_loop env file_path [] n suggestions = (None, suggestions, n)"
| "suggestions_loop env file_path (sug_data # items) n suggestions =
     (case make_suggestion env (uuid4 env n) file_path sug_data of
        Inl e \<Rightarrow> (Some e, suggestions, Suc n)
      | Inr s \<Rightarrow> suggestions_loop env file_path items (Suc n) (suggestions @ [s]))"

text \<open>The \<open>try\<close> block, with \<open>suggestions = []\<close> before it.\<close>

definition parse_body ::
  "review_env \<Rightarrow> nat \<Rightarrow> string \<Rightarrow> string \<Rightarrow> error option \<times> suggestion list \<times> nat" where
  "parse_body env n response file_path =
     (case extract_json response of
        Inl e \<Rightarrow> (Some e, [], n)
      | Inr json_text \<Rightarrow>
          (case json_loads env json_text of
             None \<Rightarrow> (Some JSONDecodeError, [], n)
           | Some suggestions_data \<Rightarrow>
               (case iter_items suggestions_data of
                  Inl e \<Rightarrow> (Some e, [], n)
                | Inr items \<Rightarrow> suggestions_loop env file_path items n [])))"

text \<open>
  \<open>_parse_llm_response\<close>: both \<open>except\<close> clauses only print, and the function returns
  \<open>suggestions\<close> after them. The second component counts the identifiers drawn.
\<close>

definition parse_llm_response ::
  "review_env \<Rightarrow> nat \<Rightarrow> string \<Rightarrow> string \<Rightarrow> suggestion list \<times> nat" where
  "parse_llm_response env n response file_path =
     (case parse_body env n response file_path of
        (Some JSONDecodeError, suggestions, n') \<Rightarrow> (suggestions, n')
      | (Some e, suggestions, n') \<Rightarrow> (suggestions, n')
      | (None, suggestions, n') \<Rightarrow> (suggestions, n'))"

text \<open>
  The items of a response with the outcome of constructing each (\<open>attempts\<close>), and the
  suggestions constructed from the items before the first that fails (\<open>constructed\<close>).
\<close>

fun attempts :: "review_env \<Rightarrow> string \<Rightarrow> nat \<Rightarrow> json list \<Rightarrow> (error + suggestion) list" where
  "attempts env file_path n [] = []"
| "attempts env file_path n (sug_data # items) =
     make_suggestion env (uuid4 env n) file_path sug_data # attempts env file_path (Suc n) items"

definition constructed :: "review_env \<Rightarrow> string \<Rightarrow> nat \<Rightarrow> json list \<Rightarrow> suggestion list" where
  "constructed env file_path n items =
     map projr (takeWhile (\<lambda>r. \<not> isl r) (attempts env file_path n items))"

subsection \<open>\<open>_review_file\<close> and \<open>generate_review\<close>\<close>

text \<open>
  \<open>_review_file\<close>: an exception of the engine (or of the parsing) gives the empty list.
\<close>

definition review_file :: "review_env \<Rightarrow> file_change \<Rightarrow> nat \<Rightarrow> suggestion list \<times> nat" where
  "review_file env fc n =
     (let code_context = build_code_context fc;
          similar_reviews = find_similar_code (similarity_query env) code_context 3;
          prompt = build_review_prompt code_context (path fc) similar_reviews
      in case llm_invoke env prompt of
           Inl e \<Rightarrow> ([], n)
         | Inr response \<Rightarrow> parse_llm_response env n response (path fc))"

text \<open>The loop of \<open>generate_review\<close> over the files, extending \<open>all_suggestions\<close>.\<close>

fun review_files_loop ::
  "review_env \<Rightarrow> file_change list \<Rightarrow> nat \<Rightarrow> suggestion list \<Rightarrow> suggestion list \<times> nat" where
  "review_files_loop env [] n all_suggestions = (all_suggestions, n)"
| "review_files_loop env (fc # fcs) n all_suggestions =
     (case review_file env fc n of
        (file_suggestions, n') \<Rightarrow>
          review_files_loop env fcs n' (all_suggestions @ file_suggestions))"

text \<open>
  The results of \<open>_review_file\<close> for the files in turn, each starting with the
  identifiers that the files before it left.
\<close>

fun file_reviews :: "review_env \<Rightarrow> file_change list \<Rightarrow> nat \<Rightarrow> suggestion list list" where
  "file_reviews env [] n = []"
| "file_reviews env (fc # fcs) n =
     fst (review_file env fc n) # file_reviews env fcs (snd (review_file env fc n))"

text \<open>The list \<open>all_suggestions\<close> before the filter, and \<open>generate_review\<close>.\<close>

definition generated_suggestions :: "review_env \<Rightarrow> parsed_diff \<Rightarrow> nat \<Rightarrow> suggestion list" where
  "generated_suggestions env parsed_diff n = fst (review_files_loop env (files parsed_diff) n [])"

definition generate_review :: "review_env \<Rightarrow> parsed_diff \<Rightarrow> nat \<Rightarrow> suggestion list" where
  "generate_review env parsed_diff n =
     filter (\<lambda>s. min_confidence env \<le> sg_confidence s) (generated_suggestions env parsed_diff n)"

text \<open>The number of identifiers drawn once the given files have been reviewed.\<close>

definition ids_after :: "review_env \<Rightarrow> file_change list \<Rightarrow> nat \<Rightarrow> nat" where
  "ids_after env fcs n = snd (review_files_loop env fcs n [])"

section \<open>Feedback endpoint (\<open>api/feedback.py\<close>)\<close>

record feedback_request =
  fr_review_id :: string
  fr_suggestion_id :: string
  fr_action :: string
  fr_reason :: "string option"
  fr_edited_suggestion :: "string option"

record feedback_response =
  success :: bool
  message :: string

text \<open>
  The \<open>try\<close> block of \<open>submit_feedback\<close>: the outcome and the collection after it.
  \<open>service\<close> is the construction of \<open>FeedbackService\<close>, which opens the store: the
  collection, or the exception it raises.
\<close>

definition submit_body ::
  "(error + entry list) \<Rightarrow> string \<Rightarrow> feedback_request \<Rightarrow> error + (feedback_response \<times> entry list)" where
  "submit_body service now request =
     (if fr_action request \<notin> set [''accept'', ''reject'', ''edit'']
      then Inl (HTTPException 400
                  (''Invalid action. Must be 'accept', 'reject', or 'edit'' @ [CHR 0x27]))
      else
        (case service of
           Inl e \<Rightarrow> Inl e
         | Inr coll \<Rightarrow>
             Inr (\<lparr>success = True,
                   message = ''Feedback '' @ fr_action request @ ''ed successfully''\<rparr>,
                  store_feedback coll (fr_review_id request) (fr_suggestion_id request)
                    (fr_action request) (fr_reason request) (fr_edited_suggestion request) now)))"

text \<open>
  \<open>submit_feedback\<close>: \<open>except Exception as e: raise HTTPException(status_code=500,
  detail=str(e))\<close> encloses the whole body, and \<open>HTTPException\<close> is an \<open>Exception\<close>.
  \<open>str_of\<close> is \<open>str()\<close> on exceptions.
\<close>

definition submit_feedback ::
  "(error \<Rightarrow> string) \<Rightarrow> (error + entry list) \<Rightarrow> string \<Rightarrow> feedback_request \<Rightarrow>
   error + (feedback_response \<times> entry list)" where
  "submit_feedback str_of service now request =
     (case submit_body service now request of
        Inl e \<Rightarrow> Inl (HTTPException 500 (str_of e))
      | Inr r \<Rightarrow> Inr r)"

text \<open>The status code of the HTTP response for an outcome of the endpoint.\<close>

definition response_status :: "error + 'a \<Rightarrow> int" where
  "response_status outcome =
     (case outcome of
        Inr r \<Rightarrow> 200
      | Inl (HTTPException status_code detail) \<Rightarrow> status_code
      | Inl e \<Rightarrow> 500)"

section \<open>Sample data\<close>

text \<open>
  A similarity query over five stored entries (accepted, pending, without action,
  rejected, edited), honouring \<open>n_results\<close> and rejecting a non-positive one.
\<close>

definition sample_metadatas :: "metadata option list" where
  "sample_metadatas =
     [Some [(''suggestion'', VStr ''use f-string''), (''action'', VStr ''accept'')],
      Some [(''suggestion'', VStr ''rename x''), (''action'', VStr ''pending'')],
      Some [(''suggestion'', VStr ''add a test'')],
      Some [(''suggestion'', VStr ''drop the print''), (''action'', VStr ''reject''),
            (''reason'', VStr ''too strict'')],
      Some [(''suggestion'', VStr ''use logging''), (''action'', VStr ''edit'')]]"

definition sample_query :: "string \<Rightarrow> int \<Rightarrow> error + query_result" where
  "sample_query query_text n_results =
     (if n_results \<le> 0 then Inl (CollaboratorError ''n_results'')
      else Inr \<lparr>qr_documents = Some [take (nat n_results) [''d1'', ''d2'', ''d3'', ''d4'', ''d5'']],
                qr_metadatas = Some [take (nat n_results) sample_metadatas]\<rparr>)"

text \<open>
  A collection as \<open>store_review_context\<close> leaves it after two reviews: three pending
  suggestions, the first two of review \<open>r1\<close>, the third of the later review \<open>r2\<close>.
\<close>

definition sample_collection :: "entry list" where
  "sample_collection =
     [\<lparr>entry_id = ''r1_a.py_s1'', document = ''+ 10: print(1)'',
       metadata =
         [(''review_id'', VStr ''r1''), (''file_path'', VStr ''a.py''),
          (''suggestion_id'', VStr ''s1''), (''suggestion'', VStr ''use f-string''),
          (''category'', VStr ''style''), (''confidence'', VInt 80), (''line_number'', VInt 10),
          (''action'', VStr ''pending''), (''timestamp'', VStr ''2024-01-01T10:00:00'')]\<rparr>,
      \<lparr>entry_id = ''r1_a.py_s2'', document = ''+ 10: print(1)'',
       metadata =
         [(''review_id'', VStr ''r1''), (''file_path'', VStr ''a.py''),
          (''suggestion_id'', VStr ''s2''), (''suggestion'', VStr ''drop the print''),
          (''category'', VStr ''bug''), (''confidence'', VInt 45), (''line_number'', VInt 10),
          (''action'', VStr ''pending''), (''timestamp'', VStr ''2024-01-01T10:00:01'')]\<rparr>,
      \<lparr>entry_id = ''r2_b.py_s3'', document = ''- 3: x = 1'',
       metadata =
         [(''review_id'', VStr ''r2''), (''file_path'', VStr ''b.py''),
          (''suggestion_id'', VStr ''s3''), (''suggestion'', VStr ''keep the default''),
          (''category'', VStr ''bug''), (''confidence'', VInt 90), (''line_number'', VInt 3),
          (''action'', VStr ''pending''), (''timestamp'', VStr ''2024-02-01T09:00:00'')]\<rparr>]"

text \<open>
  A collection whose records carry feedback: \<open>s1\<close> edited, \<open>s3\<close> rejected, \<open>s2\<close> still
  pending.
\<close>

definition judged_collection :: "entry list" where
  "judged_collection =
     [\<lparr>entry_id = ''r1_a.py_s1'', document = ''+ 10: print(1)'',
       metadata =
         [(''review_id'', VStr ''r1''), (''file_path'', VStr ''a.py''),
          (''suggestion_id'', VStr ''s1''), (''suggestion'', VStr ''use an f-string''),
          (''category'', VStr ''style''), (''confidence'', VInt 80), (''line_number'', VInt 10),
          (''action'', VStr ''edit''), (''timestamp'', VStr ''2024-01-01T10:00:00''),
          (''reason'', VStr ''''), (''feedback_timestamp'', VStr ''2024-03-02T08:00:00''),
          (''edited_suggestion'', VStr ''use an f-string'')]\<rparr>,
      \<lparr>entry_id = ''r1_a.py_s2'', document = ''+ 10: print(1)'',
       metadata =
         [(''review_id'', VStr ''r1''), (''file_path'', VStr ''a.py''),
          (''suggestion_id'', VStr ''s2''), (''suggestion'', VStr ''drop the print''),
          (''category'', VStr ''bug''), (''confidence'', VInt 45), (''line_number'', VInt 10),
          (''action'', VStr ''pending''), (''timestamp'', VStr ''2024-01-01T10:00:01'')]\<rparr>,
      \<lparr>entry_id = ''r2_b.py_s3'', document = ''- 3: x = 1'',
       metadata =
         [(''review_id'', VStr ''r2''), (''file_path'', VStr ''b.py''),
          (''suggestion_id'', VStr ''s3''), (''suggestion'', VStr ''keep the default''),
          (''category'', VStr ''bug''), (''confidence'', VInt 90), (''line_number'', VInt 3),
          (''action'', VStr ''reject''), (''timestamp'', VStr ''2024-02-01T09:00:00''),
          (''reason'', VStr ''too strict''),
          (''feedback_timestamp'', VStr ''2024-03-03T08:00:00'')]\<rparr>]"

text \<open>The sample collection with the creation times of its two reviews exchanged.\<close>

definition swapped_collection :: "entry list" where
  "swapped_collection =
     [\<lparr>entry_id = ''r1_a.py_s1'', document = ''+ 10: print(1)'',
       metadata =
         [(''review_id'', VStr ''r1''), (''file_path'', VStr ''a.py''),
          (''suggestion_id'', VStr ''s1''), (''action'', VStr ''pending''),
          (''timestamp'', VStr ''2024-02-01T09:00:00'')]\<rparr>,
      \<lparr>entry_id = ''r2_b.py_s3'', document = ''- 3: x = 1'',
       metadata =
         [(''review_id'', VStr ''r2''), (''file_path'', VStr ''b.py''),
          (''suggestion_id'', VStr ''s3''), (''action'', VStr ''pending''),
          (''timestamp'', VStr ''2024-01-01T10:00:00'')]\<rparr>]"

text \<open>The id and creation time of each returned review.\<close>

definition review_heads :: "review list \<Rightarrow> (mval \<times> mval) list" where
  "review_heads rs = map (\<lambda>r. (rv_review_id r, rv_created_at r)) rs"

text \<open>
  Retrieved feedback with four accepted and one rejected record, and feedback whose
  only record was edited.
\<close>

definition similar_sample :: "similar_review list" where
  "similar_sample =
     map (\<lambda>(a, s). \<lparr>sr_code_context = ''+ 1: x'', sr_suggestion = VStr s, sr_action = VStr a,
                     sr_reason = VStr '''', sr_category = VStr ''style'', sr_confidence = VInt 70\<rparr>)
       [(''accept'', ''a1''), (''reject'', ''r1''), (''accept'', ''a2''), (''accept'', ''a3''),
        (''edit'', ''e1''), (''accept'', ''a4'')]"

definition edited_only :: "similar_review list" where
  "edited_only =
     [\<lparr>sr_code_context = ''+ 1: x'', sr_suggestion = VStr ''e1'', sr_action = VStr ''edit'',
       sr_reason = VStr '''', sr_category = VStr ''style'', sr_confidence = VInt 70\<rparr>]"

text \<open>
  An environment for the review service: a threshold of 30, the sample similarity query,
  strict field validation, identifiers \<open>id-0\<close>, \<open>id-1\<close>, ..., a JSON parser known at two
  texts, and an engine that answers prose for \<open>a.py\<close>, a fenced JSON array for \<open>b.py\<close> and
  fails otherwise.
\<close>

definition strict_int :: "json \<Rightarrow> int option" where
  "strict_int j = (case j of JInt i \<Rightarrow> Some i | _ \<Rightarrow> None)"

definition strict_str :: "json \<Rightarrow> string option" where
  "strict_str j = (case j of JStr s \<Rightarrow> Some s | _ \<Rightarrow> None)"

definition good_json :: string where
  "good_json =
     ''[{\"line_number\": 1, \"category\": \"style\", \"suggestion\": \"add a docstring\", \"confidence\": 80}, {\"line_number\": 1, \"confidence\": 20}]''"

definition partial_json :: string where
  "partial_json = ''[{\"confidence\": 80}, 5]''"

definition sample_loads :: "string \<Rightarrow> json option" where
  "sample_loads s =
     (if s = good_json
      then Some (JArr [JObj [(''line_number'', JInt 1), (''category'', JStr ''style''),
                             (''suggestion'', JStr ''add a docstring''), (''confidence'', JInt 80)],
                       JObj [(''line_number'', JInt 1), (''confidence'', JInt 20)]])
      else if s = partial_json
      then Some (JArr [JObj [(''confidence'', JInt 80)], JInt 5])
      else None)"

definition sample_llm :: "string \<Rightarrow> error + string" where
  "sample_llm prompt =
     (if prefix (prompt_intro @ ''a.py'') prompt then Inr ''I cannot review this file.''
      else if prefix (prompt_intro @ ''b.py'') prompt
      then Inr (''```json\<newline>'' @ good_json @ ''\<newline>```'')
      else Inl (CollaboratorError ''timeout''))"

definition sample_env :: review_env where
  "sample_env =
     \<lparr>min_confidence = 30, similarity_query = sample_query, llm_invoke = sample_llm,
      json_loads = sample_loads, validate_int = strict_int, validate_str = strict_str,
      uuid4 = (\<lambda>n. ''id-'' @ show_nat n)\<rparr>"

text \<open>
  The diff and the engine of the specification's end-to-end example: one added line
  \<open>print("hi")\<close> at target line 10 of \<open>a.py\<close>, and an engine that always answers with one
  suggestion of confidence 80.
\<close>

definition hi_diff :: parsed_diff where
  "hi_diff =
     \<lparr>files =
        [\<lparr>path = ''a.py'', additions = 1, deletions = 0,
          hunks =
            [\<lparr>source_start = 9, source_length = 0, target_start = 10, target_length = 1,
              hunk_lines =
                [\<lparr>line_type = ''+'', line_value = ''print(\"hi\")'', source_line_no = None,
                  target_line_no = Some 10\<rparr>]\<rparr>]\<rparr>],
      raw_content = ''''\<rparr>"

definition hi_json :: string where
  "hi_json =
     ''[{\"line_number\":10,\"category\":\"style\",\"suggestion\":\"use f-string\",'' @
     ''\"confidence\":80,\"code_snippet\":\"print('' @ [CHR 0x5C] @ ''\"hi'' @ [CHR 0x5C] @
     ''\")\"}]''"

definition hi_env :: review_env where
  "hi_env =
     \<lparr>min_confidence = 30,
      similarity_query = (\<lambda>query_text n_results. Inl (CollaboratorError ''empty index'')),
      llm_invoke = (\<lambda>prompt. Inr hi_json),
      json_loads =
        (\<lambda>s. if s = hi_json
             then Some (JArr [JObj [(''line_number'', JInt 10), (''category'', JStr ''style''),
                                    (''suggestion'', JStr ''use f-string''),
                                    (''confidence'', JInt 80),
                                    (''code_snippet'', JStr ''print(\"hi\")'')]])
             else None),
      validate_int = strict_int, validate_str = strict_str,
      uuid4 = (\<lambda>n. ''id-'' @ show_nat n)\<rparr>"

section \<open>Properties of the diff queries\<close>

lemma context_lines_loop_filter:
  "context_lines_loop ls n w acc =
     acc @ map context_entry (filter (\<lambda>l. in_context l n w) ls)"
  by (induction ls arbitrary: acc) simp_all

lemma context_hunks_loop_filter:
  "context_hunks_loop hs n w acc =
     acc @ map context_entry (filter (\<lambda>l. in_context l n w) (concat (map hunk_lines hs)))"
  by (induction hs arbitrary: acc) (simp_all add: context_lines_loop_filter)

lemma context_files_loop_find:
  "context_files_loop fcs p n w =
     (case find (\<lambda>fc. path fc = p) fcs of
        None \<Rightarrow> ''''
      | Some fc \<Rightarrow>
          join ''\<newline>'' (map context_entry (filter (\<lambda>l. in_context l n w) (file_lines fc))))"
  by (induction fcs) (simp_all add: context_hunks_loop_filter file_lines_def)

lemma in_context_iff:
  "in_context l n w \<longleftrightarrow> within_window l n w \<and> target_line_no l \<noteq> Some 0"
  by (auto simp: in_context_def within_window_def split: option.splits)

text \<open>
  C6, as stated, fails: a line whose target line number is 0 lies within the window of
  line 0 but is left out by the truth test of the source.
\<close>

theorem get_file_context_zero_line_counterexample:
  "get_file_context zero_line_diff ''a.py'' 0 5 = '''' \<and>
   get_file_context_spec zero_line_diff ''a.py'' 0 5 = ''0: x''"
  by (simp add: get_file_context_def get_file_context_spec_def zero_line_diff_def
      in_context_def within_window_def file_lines_def context_entry_def show_int_def digit_char_def)

text \<open>
  C6, amended: \<open>get_file_context\<close> returns the newline-joined entries, in original order,
  of exactly those lines of the first file with the given path whose target line number
  is present, is not 0 and lies within the window of the requested line; it returns the
  empty string when no file has the path. Being a function of its arguments, the query
  is deterministic and leaves the diff as it is.
\<close>

theorem get_file_context_characterisation:
  "get_file_context diff file_path line_number window =
     (case find (\<lambda>fc. path fc = file_path) (files diff) of
        None \<Rightarrow> ''''
      | Some fc \<Rightarrow>
          join ''\<newline>''
            (map context_entry
               (filter (\<lambda>l. within_window l line_number window \<and> target_line_no l \<noteq> Some 0)
                  (file_lines fc))))"
  by (simp add: get_file_context_def context_files_loop_find in_context_iff split: option.split)

section \<open>Properties of the feedback store\<close>

subsection \<open>Retrieval of similar feedback\<close>

lemma similar_loop_sound:
  "similar_loop docs mds limit acc = Inr r \<Longrightarrow> x \<in> set r \<Longrightarrow> x \<notin> set acc \<Longrightarrow>
     \<exists>md. Some md \<in> set mds \<and> map_of md ''action'' = Some (sr_action x) \<and>
          sr_action x \<in> set feedback_actions"
proof (induction docs arbitrary: mds acc)
  case Nil
  then show ?case by simp
next
  case (Cons doc docs)
  show ?case
  proof (cases mds)
    case Nil
    with Cons.prems have "similar_loop docs [] limit acc = Inr r \<or> r = acc"
      by (auto simp: dget_def feedback_actions_def Let_def split: if_splits)
    with Cons.IH[of "[]" acc] Cons.prems show ?thesis by auto
  next
    case (Cons m ms)
    show ?thesis
    proof (cases m)
      case None
      with Cons Cons.prems show ?thesis by simp
    next
      case (Some md)
      let ?a = "dget md ''action'' (VStr ''pending'')"
      show ?thesis
      proof (cases "?a \<in> set feedback_actions")
        case False
        with Some Cons Cons.prems have "similar_loop docs ms limit acc = Inr r \<or> r = acc"
          by (auto simp: Let_def split: if_splits)
        with Cons.IH[of ms acc] Cons.prems Cons show ?thesis by auto
      next
        case True
        define rec where "rec = \<lparr>sr_code_context = doc,
                      sr_suggestion = dget md ''suggestion'' (VStr ''''),
                      sr_action = ?a,
                      sr_reason = dget md ''reason'' (VStr ''''),
                      sr_category = dget md ''category'' (VStr ''''),
                      sr_confidence = dget md ''confidence'' (VInt 0)\<rparr>"
        from True have act: "map_of md ''action'' = Some ?a"
          by (auto simp: dget_def feedback_actions_def split: option.splits)
        from True Some Cons Cons.prems
        have "similar_loop docs ms limit (acc @ [rec]) = Inr r \<or> r = acc @ [rec]"
          by (auto simp: Let_def rec_def split: if_splits)
        then show ?thesis
        proof
          assume r: "r = acc @ [rec]"
          with Cons.prems have "x = rec" by auto
          with act True Cons Some show ?thesis by (auto simp: rec_def)
        next
          assume l: "similar_loop docs ms limit (acc @ [rec]) = Inr r"
          show ?thesis
          proof (cases "x = rec")
            case True
            with act \<open>?a \<in> set feedback_actions\<close> Cons Some show ?thesis by (auto simp: rec_def)
          next
            case False
            with Cons.IH[OF l] Cons.prems Cons show ?thesis by auto
          qed
        qed
      qed
    qed
  qed
qed

lemma similar_loop_length:
  "similar_loop docs mds limit acc = Inr r \<Longrightarrow>
     int (length r) \<le> max limit (int (length acc) + 1)"
proof (induction docs arbitrary: mds acc)
  case Nil
  then show ?case by simp
next
  case (Cons doc docs)
  from Cons.prems obtain md where md: "(case mds of [] \<Rightarrow> Some [] | m # ms \<Rightarrow> m) = Some md"
    by (auto split: option.splits)
  define acc' where "acc' = (if dget md ''action'' (VStr ''pending'') \<in> set feedback_actions
                  then acc @
                    [\<lparr>sr_code_context = doc,
                      sr_suggestion = dget md ''suggestion'' (VStr ''''),
                      sr_action = dget md ''action'' (VStr ''pending''),
                      sr_reason = dget md ''reason'' (VStr ''''),
                      sr_category = dget md ''category'' (VStr ''''),
                      sr_confidence = dget md ''confidence'' (VInt 0)\<rparr>]
                  else acc)"
  have len: "length acc' \<le> length acc + 1"
    by (simp add: acc'_def)
  have "similar_loop (doc # docs) mds limit acc =
          (if limit \<le> int (length acc') then Inr acc'
           else similar_loop docs (tl mds) limit acc')"
    unfolding acc'_def by (simp only: similar_loop.simps md option.simps Let_def)
  with Cons.prems
  have step: "(if limit \<le> int (length acc') then Inr acc'
               else similar_loop docs (tl mds) limit acc') = Inr r"
    by simp
  show ?case
  proof (cases "limit \<le> int (length acc')")
    case True
    with step have "r = acc'" by simp
    with len show ?thesis by simp
  next
    case False
    with step have "similar_loop docs (tl mds) limit acc' = Inr r" by simp
    from Cons.IH[OF this] False show ?thesis by simp
  qed
qed

lemma find_similar_code_cases:
  "find_similar_code query code_context limit = [] \<or>
   (\<exists>res docs0 ds. query code_context (min (limit * 3) 20) = Inr res \<and>
      qr_documents res = Some (docs0 # ds) \<and> 
      similar_loop docs0 (case qr_metadatas res of None \<Rightarrow> [] | Some [] \<Rightarrow> [] | Some (m # ms) \<Rightarrow> m) limit [] =
        Inr (find_similar_code query code_context limit))"
  by (auto simp: find_similar_code_def Let_def split: sum.splits option.splits list.splits)


text \<open>
  C1: every record that \<open>find_similar_code\<close> returns carries a terminal action (accept,
  reject or edit) that is recorded in the metadata of a retrieved entry, so no record
  whose action is pending or missing is returned; and at most \<open>limit\<close> records are
  returned: for a positive \<open>limit\<close> whatever the similarity query returns or raises, and
  for \<open>limit = 0\<close> when the query returns no more documents than it is asked for.
\<close>

theorem find_similar_code_terminal_bounded:
  "(\<forall>r \<in> set (find_similar_code query code_context limit).
      sr_action r \<in> {VStr ''accept'', VStr ''reject'', VStr ''edit''} \<and>
      sr_action r \<noteq> VStr ''pending'' \<and>
      (\<exists>res m ms md. query code_context (min (limit * 3) 20) = Inr res \<and>
          qr_metadatas res = Some (m # ms) \<and> Some md \<in> set m \<and>
          map_of md ''action'' = Some (sr_action r))) \<and>
   (0 < limit \<longrightarrow> int (length (find_similar_code query code_context limit)) \<le> limit) \<and>
   (limit = 0 \<and> returns_at_most query code_context (min (limit * 3) 20) \<longrightarrow>
      find_similar_code query code_context limit = [])"
proof (intro conjI ballI impI)
  fix r assume r: "r \<in> set (find_similar_code query code_context limit)"
  then have ne: "find_similar_code query code_context limit \<noteq> []" by auto
  with find_similar_code_cases[of query code_context limit]
  obtain res docs0 ds where q: "query code_context (min (limit * 3) 20) = Inr res"
    and l: "similar_loop docs0 (case qr_metadatas res of None \<Rightarrow> [] | Some [] \<Rightarrow> [] | Some (m # ms) \<Rightarrow> m) limit [] =
        Inr (find_similar_code query code_context limit)"
    by auto
  from similar_loop_sound[OF l r] obtain md where
    md: "Some md \<in> set (case qr_metadatas res of None \<Rightarrow> [] | Some [] \<Rightarrow> [] | Some (m # ms) \<Rightarrow> m)"
    and a: "map_of md ''action'' = Some (sr_action r)" and t: "sr_action r \<in> set feedback_actions"
    by auto
  from t show "sr_action r \<in> {VStr ''accept'', VStr ''reject'', VStr ''edit''}"
    by (simp add: feedback_actions_def)
  from t show "sr_action r \<noteq> VStr ''pending''"
    by (auto simp: feedback_actions_def)
  from md obtain m ms where "qr_metadatas res = Some (m # ms)" "Some md \<in> set m"
    by (cases "qr_metadatas res") (auto split: list.splits)
  with q a show "\<exists>res m ms md. query code_context (min (limit * 3) 20) = Inr res \<and>
          qr_metadatas res = Some (m # ms) \<and> Some md \<in> set m \<and>
          map_of md ''action'' = Some (sr_action r)" by blast
next
  assume pos: "0 < limit"
  from find_similar_code_cases[of query code_context limit]
  show "int (length (find_similar_code query code_context limit)) \<le> limit"
  proof
    assume "find_similar_code query code_context limit = []"
    with pos show ?thesis by simp
  next
    assume "\<exists>res docs0 ds. query code_context (min (limit * 3) 20) = Inr res \<and>
      qr_documents res = Some (docs0 # ds) \<and> 
      similar_loop docs0 (case qr_metadatas res of None \<Rightarrow> [] | Some [] \<Rightarrow> [] | Some (m # ms) \<Rightarrow> m) limit [] =
        Inr (find_similar_code query code_context limit)"
    then obtain docs0 mds where "similar_loop docs0 mds limit [] = Inr (find_similar_code query code_context limit)"
      by blast
    from similar_loop_length[OF this] pos show ?thesis by simp
  qed
next
  assume z: "limit = 0 \<and> returns_at_most query code_context (min (limit * 3) 20)"
  from find_similar_code_cases[of query code_context limit]
  show "find_similar_code query code_context limit = []"
  proof
    assume "find_similar_code query code_context limit = []"
    then show ?thesis .
  next
    assume "\<exists>res docs0 ds. query code_context (min (limit * 3) 20) = Inr res \<and>
      qr_documents res = Some (docs0 # ds) \<and> 
      similar_loop docs0 (case qr_metadatas res of None \<Rightarrow> [] | Some [] \<Rightarrow> [] | Some (m # ms) \<Rightarrow> m) limit [] =
        Inr (find_similar_code query code_context limit)"
    then obtain res docs0 ds mds where q: "query code_context (min (limit * 3) 20) = Inr res"
      and d: "qr_documents res = Some (docs0 # ds)"
      and l: "similar_loop docs0 mds limit [] = Inr (find_similar_code query code_context limit)"
      by blast
    from z have z0: "limit = 0"
      by (rule conjunct1)
    from z have c: "returns_at_most query code_context (min (limit * 3) 20)"
      by (rule conjunct2)
    from c q d have "int (length docs0) \<le> max 0 (min (limit * 3) 20)"
      by (simp add: returns_at_most_def)
    with z0 have "docs0 = []"
      by simp
    with l show ?thesis by simp
  qed
qed

theorem find_similar_code_terminal_bounded_witness:
  "(0::int) < 2 \<and>
   returns_at_most sample_query ''+ 1: x'' (min (0 * 3) 20) \<and>
   find_similar_code sample_query ''+ 1: x'' 0 = [] \<and>
   map sr_action (find_similar_code sample_query ''+ 1: x'' 2) = [VStr ''accept'', VStr ''reject''] \<and>
   map sr_suggestion (find_similar_code sample_query ''+ 1: x'' 2) =
     [VStr ''use f-string'', VStr ''drop the print''] \<and>
   int (length (find_similar_code sample_query ''+ 1: x'' 2)) \<le> 2"
proof -
  have run: "map sr_action (find_similar_code sample_query ''+ 1: x'' 2) = [VStr ''accept'', VStr ''reject''] \<and>
   map sr_suggestion (find_similar_code sample_query ''+ 1: x'' 2) =
     [VStr ''use f-string'', VStr ''drop the print'']"
    by (simp add: find_similar_code_def sample_query_def sample_metadatas_def dget_def
        feedback_actions_def Let_def)
  from find_similar_code_terminal_bounded[of sample_query "''+ 1: x''" 2]
  have len: "int (length (find_similar_code sample_query ''+ 1: x'' 2)) \<le> 2"
    by simp
  have h: "returns_at_most sample_query ''+ 1: x'' (min (0 * 3) 20)"
    by (simp add: returns_at_most_def sample_query_def)
  with find_similar_code_terminal_bounded[of sample_query "''+ 1: x''" 0]
  have "find_similar_code sample_query ''+ 1: x'' 0 = []"
    by simp
  with run len h show ?thesis by simp
qed

subsection \<open>Applying feedback\<close>

lemma map_of_update:
  "map_of (AList.update k v al) k' = (if k' = k then Some v else map_of al k')"
  by (simp add: update_conv')

lemma updated_metadata_action:
  "map_of (updated_metadata md action reason edited now) ''action'' = Some (VStr action)"
  by (simp add: updated_metadata_def Let_def map_of_update split: option.splits)

lemma updated_metadata_reason:
  "map_of (updated_metadata md action reason edited now) ''reason'' =
     Some (VStr (str_or_empty reason))"
  by (simp add: updated_metadata_def Let_def map_of_update split: option.splits)

lemma updated_metadata_timestamp:
  "map_of (updated_metadata md action reason edited now) ''feedback_timestamp'' = Some (VStr now)"
  by (simp add: updated_metadata_def Let_def map_of_update split: option.splits)

lemma updated_metadata_other:
  "k \<notin> {''action'', ''reason'', ''feedback_timestamp'', ''suggestion'', ''edited_suggestion''} \<Longrightarrow>
     map_of (updated_metadata md action reason edited now) k = map_of md k"
  by (simp add: updated_metadata_def Let_def map_of_update split: option.splits)

lemma updated_metadata_no_edit:
  "edited = None \<or> edited = Some '''' \<Longrightarrow>
     k \<notin> {''action'', ''reason'', ''feedback_timestamp''} \<Longrightarrow>
     map_of (updated_metadata md action reason edited now) k = map_of md k"
  by (auto simp: updated_metadata_def Let_def map_of_update)

lemma updated_metadata_twice:
  assumes "k \<noteq> ''suggestion''" and "k \<noteq> ''edited_suggestion''"
  shows "map_of (updated_metadata (updated_metadata md a1 r1 e1 t1) a2 r2 e2 t2) k =
         map_of (updated_metadata md a2 r2 e2 t2) k"
proof (cases "k = ''action''")
  case True
  then show ?thesis by (simp only: updated_metadata_action)
next
  case na: False
  show ?thesis
  proof (cases "k = ''reason''")
    case True
    then show ?thesis by (simp only: updated_metadata_reason)
  next
    case nr: False
    show ?thesis
    proof (cases "k = ''feedback_timestamp''")
      case True
      then show ?thesis by (simp only: updated_metadata_timestamp)
    next
      case nt: False
      have "k \<notin> {''action'', ''reason'', ''feedback_timestamp'', ''suggestion'',
                 ''edited_suggestion''}"
        using assms na nr nt by (simp only: insert_iff empty_iff simp_thms not_False_eq_True)
      then have "\<And>m a r e t. map_of (updated_metadata m a r e t) k = map_of m k"
        by (rule updated_metadata_other)
      then show ?thesis by (simp only:)
    qed
  qed
qed

text \<open>
  The metadata that \<open>store_feedback\<close> prepares for a record it has found: action, reason
  and feedback time are those of the call; a key outside the five feedback keys keeps its
  value; without an edited text, or with the empty one, the two suggestion texts keep
  theirs; and preparing a second update on top of a first gives, on every key but the
  two suggestion texts, what the second gives alone.
\<close>

theorem updated_metadata_last_write_wins:
  "map_of (updated_metadata md action reason edited now) ''action'' = Some (VStr action) \<and>
   map_of (updated_metadata md action reason edited now) ''reason'' =
     Some (VStr (str_or_empty reason)) \<and>
   map_of (updated_metadata md action reason edited now) ''feedback_timestamp'' =
     Some (VStr now) \<and>
   (k \<notin> {''action'', ''reason'', ''feedback_timestamp'', ''suggestion'', ''edited_suggestion''} \<longrightarrow>
      map_of (updated_metadata md action reason edited now) k = map_of md k) \<and>
   (edited = None \<or> edited = Some '''' \<longrightarrow>
      map_of (updated_metadata md action reason edited now) ''suggestion'' =
        map_of md ''suggestion'' \<and>
      map_of (updated_metadata md action reason edited now) ''edited_suggestion'' =
        map_of md ''edited_suggestion'') \<and>
   (k \<noteq> ''suggestion'' \<and> k \<noteq> ''edited_suggestion'' \<longrightarrow>
      map_of (updated_metadata (updated_metadata md action1 reason1 edited1 now1)
                action reason edited now) k =
      map_of (updated_metadata md action reason edited now) k)"
proof (intro conjI impI)
  show "map_of (updated_metadata md action reason edited now) ''action'' = Some (VStr action)"
    by (rule updated_metadata_action)
  show "map_of (updated_metadata md action reason edited now) ''reason'' =
     Some (VStr (str_or_empty reason))"
    by (rule updated_metadata_reason)
  show "map_of (updated_metadata md action reason edited now) ''feedback_timestamp'' =
     Some (VStr now)"
    by (rule updated_metadata_timestamp)
next
  assume "k \<notin> {''action'', ''reason'', ''feedback_timestamp'', ''suggestion'',
               ''edited_suggestion''}"
  then show "map_of (updated_metadata md action reason edited now) k = map_of md k"
    by (rule updated_metadata_other)
next
  assume e: "edited = None \<or> edited = Some ''''"
  show "map_of (updated_metadata md action reason edited now) ''suggestion'' =
        map_of md ''suggestion''"
    by (rule updated_metadata_no_edit[OF e]) simp
next
  assume e: "edited = None \<or> edited = Some ''''"
  show "map_of (updated_metadata md action reason edited now) ''edited_suggestion'' =
        map_of md ''edited_suggestion''"
    by (rule updated_metadata_no_edit[OF e]) simp
next
  assume "k \<noteq> ''suggestion'' \<and> k \<noteq> ''edited_suggestion''"
  then show "map_of (updated_metadata (updated_metadata md action1 reason1 edited1 now1)
                action reason edited now) k =
      map_of (updated_metadata md action reason edited now) k"
    by (elim conjE) (rule updated_metadata_twice)
qed

theorem updated_metadata_last_write_wins_witness:
  "''category'' \<notin> {''action'', ''reason'', ''feedback_timestamp'', ''suggestion'',
                   ''edited_suggestion''} \<and>
   (Some '''' = None \<or> Some '''' = Some '''') \<and>
   (''category'' \<noteq> ''suggestion'' \<and> ''category'' \<noteq> ''edited_suggestion'') \<and>
   map (map_of
          (updated_metadata
             (updated_metadata (metadata (hd sample_collection)) ''accept'' None
                (Some ''use an f-string'') ''2024-03-01T08:00:00'')
             ''reject'' (Some ''too strict'') (Some '''') ''2024-03-02T08:00:00''))
     [''action'', ''reason'', ''feedback_timestamp'', ''category''] =
   [Some (VStr ''reject''), Some (VStr ''too strict''), Some (VStr ''2024-03-02T08:00:00''),
    Some (VStr ''style'')] \<and>
   map (map_of
          (updated_metadata (metadata (hd sample_collection)) ''reject'' (Some ''too strict'')
             (Some '''') ''2024-03-02T08:00:00''))
     [''suggestion'', ''edited_suggestion''] =
   [Some (VStr ''use f-string''), None]"
proof -
  have c: "''category'' \<notin> {''action'', ''reason'', ''feedback_timestamp'', ''suggestion'',
                   ''edited_suggestion''}"
    by simp
  have n: "''category'' \<noteq> ''suggestion'' \<and> ''category'' \<noteq> ''edited_suggestion''"
    by simp
  have e: "Some '''' = None \<or> Some '''' = Some ''''"
    by simp
  have md: "map (map_of (metadata (hd sample_collection)))
              [''category'', ''suggestion'', ''edited_suggestion''] =
            [Some (VStr ''style''), Some (VStr ''use f-string''), None]"
    by (simp add: sample_collection_def)
  note g = updated_metadata_last_write_wins[where md = "metadata (hd sample_collection)"
      and action = "''reject''" and reason = "Some ''too strict''" and edited = "Some ''''"
      and now = "''2024-03-02T08:00:00''" and k = "''category''" and ?action1.0 = "''accept''"
      and ?reason1.0 = None and ?edited1.0 = "Some ''use an f-string''"
      and ?now1.0 = "''2024-03-01T08:00:00''"]
  have a: "map_of
          (updated_metadata
             (updated_metadata (metadata (hd sample_collection)) ''accept'' None
                (Some ''use an f-string'') ''2024-03-01T08:00:00'')
             ''reject'' (Some ''too strict'') (Some '''') ''2024-03-02T08:00:00'') ''category'' =
        map_of (updated_metadata (metadata (hd sample_collection)) ''reject''
                (Some ''too strict'') (Some '''') ''2024-03-02T08:00:00'') ''category''"
    by (rule g[THEN conjunct2, THEN conjunct2, THEN conjunct2, THEN conjunct2, THEN conjunct2,
          THEN mp, OF n])
  have b: "map_of (updated_metadata (metadata (hd sample_collection)) ''reject''
                (Some ''too strict'') (Some '''') ''2024-03-02T08:00:00'') ''category'' =
        map_of (metadata (hd sample_collection)) ''category''"
    by (rule g[THEN conjunct2, THEN conjunct2, THEN conjunct2, THEN conjunct1, THEN mp, OF c])
  have s: "map_of (updated_metadata (metadata (hd sample_collection)) ''reject''
                (Some ''too strict'') (Some '''') ''2024-03-02T08:00:00'') ''suggestion'' =
             map_of (metadata (hd sample_collection)) ''suggestion'' \<and>
           map_of (updated_metadata (metadata (hd sample_collection)) ''reject''
                (Some ''too strict'') (Some '''') ''2024-03-02T08:00:00'') ''edited_suggestion'' =
             map_of (metadata (hd sample_collection)) ''edited_suggestion''"
    by (rule g[THEN conjunct2, THEN conjunct2, THEN conjunct2, THEN conjunct2, THEN conjunct1,
          THEN mp, OF e])
  have first3: "map (map_of
          (updated_metadata
             (updated_metadata (metadata (hd sample_collection)) ''accept'' None
                (Some ''use an f-string'') ''2024-03-01T08:00:00'')
             ''reject'' (Some ''too strict'') (Some '''') ''2024-03-02T08:00:00''))
     [''action'', ''reason'', ''feedback_timestamp''] =
   [Some (VStr ''reject''), Some (VStr ''too strict''), Some (VStr ''2024-03-02T08:00:00'')]"
    by (simp add: updated_metadata_action updated_metadata_reason updated_metadata_timestamp
        str_or_empty_def)
  from md have md1: "map_of (metadata (hd sample_collection)) ''category'' = Some (VStr ''style'')"
    and md2: "map_of (metadata (hd sample_collection)) ''suggestion'' = Some (VStr ''use f-string'')"
    and md3: "map_of (metadata (hd sample_collection)) ''edited_suggestion'' = None"
    by simp_all
  from first3 a b s md1 md2 md3 c n e show ?thesis
    by (simp only: list.map list.inject simp_thms)
qed

text \<open>
  The lookup of \<open>store_feedback\<close> always raises: its filter has the two keys \<open>review_id\<close>
  and \<open>suggestion_id\<close>. So every call returns the collection as it was.
\<close>

lemma coll_get_where_feedback:
  "coll_get_where (feedback_where review_id suggestion_id) coll = Inl ValueError"
  by (simp add: coll_get_where_def feedback_where_def)

lemma store_feedback_unchanged:
  "store_feedback coll review_id suggestion_id action reason edited now = coll"
  by (simp add: store_feedback_def coll_get_where_feedback)

text \<open>
  C3: \<open>store_feedback\<close> applied twice to the same pair of ids leaves the collection as it
  was before the first call, whatever the actions, reasons and times, and whether or not
  a record with the two ids exists: neither the first nor the second action is recorded,
  and nothing is raised. In the sample collection the record \<open>r1_a.py_s1\<close> is the one
  with review id \<open>r1\<close> and suggestion id \<open>s1\<close>; after an accept and then a reject it
  still reads \<open>pending\<close>, with no reason and no feedback time, as do the other records.
\<close>

theorem store_feedback_twice_leaves_pending:
  "store_feedback (store_feedback coll review_id suggestion_id action1 reason1 edited1 now1)
     review_id suggestion_id action2 reason2 edited2 now2 = coll \<and>
   map entry_id (coll_get (feedback_where ''r1'' ''s1'') sample_collection) = [''r1_a.py_s1''] \<and>
   map feedback_view
     (store_feedback
        (store_feedback sample_collection ''r1'' ''s1'' ''accept'' None None
           ''2024-03-01T08:00:00'')
        ''r1'' ''s1'' ''reject'' (Some ''too strict'') None ''2024-03-02T08:00:00'') =
   [(''r1_a.py_s1'', [Some (VStr ''pending''), None, None, Some (VStr ''use f-string''), None]),
    (''r1_a.py_s2'', [Some (VStr ''pending''), None, None, Some (VStr ''drop the print''), None]),
    (''r2_b.py_s3'', [Some (VStr ''pending''), None, None, Some (VStr ''keep the default''),
       None])]"
proof (intro conjI)
  show "store_feedback (store_feedback coll review_id suggestion_id action1 reason1 edited1 now1)
     review_id suggestion_id action2 reason2 edited2 now2 = coll"
    by (simp only: store_feedback_unchanged)
  show "map entry_id (coll_get (feedback_where ''r1'' ''s1'') sample_collection) =
        [''r1_a.py_s1'']"
    by (simp add: coll_get_def matches_where_def feedback_where_def sample_collection_def)
  show "map feedback_view
     (store_feedback
        (store_feedback sample_collection ''r1'' ''s1'' ''accept'' None None
           ''2024-03-01T08:00:00'')
        ''r1'' ''s1'' ''reject'' (Some ''too strict'') None ''2024-03-02T08:00:00'') =
   [(''r1_a.py_s1'', [Some (VStr ''pending''), None, None, Some (VStr ''use f-string''), None]),
    (''r1_a.py_s2'', [Some (VStr ''pending''), None, None, Some (VStr ''drop the print''), None]),
    (''r2_b.py_s3'', [Some (VStr ''pending''), None, None, Some (VStr ''keep the default''),
       None])]"
    by (simp only: store_feedback_unchanged) (simp add: feedback_view_def sample_collection_def)
qed

text \<open>
  C10: \<open>store_feedback\<close> with no edited text, or with the empty one, leaves the whole
  collection as it was: the suggestion text and the \<open>edited_suggestion\<close> field are
  unchanged, but so are action, reason and feedback time. In the sample collection the
  record \<open>r2_b.py_s3\<close> is the one with review id \<open>r2\<close> and suggestion id \<open>s3\<close>; after
  an edit with reason \<open>fine\<close> and the empty text it still reads \<open>pending\<close>, with no reason
  and no feedback time.
\<close>

theorem store_feedback_empty_edit_leaves_pending:
  "store_feedback coll review_id suggestion_id action reason None now = coll \<and>
   store_feedback coll review_id suggestion_id action reason (Some '''') now = coll \<and>
   map entry_id (coll_get (feedback_where ''r2'' ''s3'') sample_collection) = [''r2_b.py_s3''] \<and>
   feedback_view
     (store_feedback sample_collection ''r2'' ''s3'' ''edit'' (Some ''fine'') (Some '''')
        ''2024-03-03T08:00:00'' ! 2) =
   (''r2_b.py_s3'', [Some (VStr ''pending''), None, None, Some (VStr ''keep the default''), None])"
proof (intro conjI)
  show "store_feedback coll review_id suggestion_id action reason None now = coll"
    by (rule store_feedback_unchanged)
  show "store_feedback coll review_id suggestion_id action reason (Some '''') now = coll"
    by (rule store_feedback_unchanged)
  show "map entry_id (coll_get (feedback_where ''r2'' ''s3'') sample_collection) =
        [''r2_b.py_s3'']"
    by (simp add: coll_get_def matches_where_def feedback_where_def sample_collection_def)
  show "feedback_view
     (store_feedback sample_collection ''r2'' ''s3'' ''edit'' (Some ''fine'') (Some '''')
        ''2024-03-03T08:00:00'' ! 2) =
   (''r2_b.py_s3'', [Some (VStr ''pending''), None, None, Some (VStr ''keep the default''), None])"
    by (simp only: store_feedback_unchanged) (simp add: feedback_view_def sample_collection_def)
qed

section \<open>Properties of the review listing\<close>

text \<open>
  C7: \<open>get_recent_reviews\<close> takes the first \<open>limit\<close> review ids in the enumeration order of
  the id set and only then loads and sorts them. On the sample collection, whose review
  \<open>r2\<close> is the most recent, a limit of 1 returns the older review \<open>r1\<close> when the set
  enumerates \<open>r1\<close> first; with a limit of 2 both are returned, most recent first.
\<close>

theorem get_recent_reviews_takes_before_sorting:
  "review_heads (get_recent_reviews (\<lambda>ids. ids) (\<lambda>r. ''2024-04-01T00:00:00'') sample_collection 1) =
     [(VStr ''r1'', VStr ''2024-01-01T10:00:00'')] \<and>
   review_heads (get_recent_reviews (\<lambda>ids. ids) (\<lambda>r. ''2024-04-01T00:00:00'') sample_collection 2) =
     [(VStr ''r2'', VStr ''2024-02-01T09:00:00''), (VStr ''r1'', VStr ''2024-01-01T10:00:00'')]"
  by code_simp

text \<open>
  Whichever of the two ids the set enumerates first, one of two collections that differ
  only in their creation times gets the older review for a limit of 1.
\<close>

lemma get_recent_reviews_some_order_fails:
  assumes "set_order [VStr ''r1'', VStr ''r2''] = [VStr ''r1'', VStr ''r2''] \<or>
           set_order [VStr ''r1'', VStr ''r2''] = [VStr ''r2'', VStr ''r1'']"
  shows "review_heads (get_recent_reviews set_order clock sample_collection 1) =
           [(VStr ''r1'', VStr ''2024-01-01T10:00:00'')] \<or>
         review_heads (get_recent_reviews set_order clock swapped_collection 1) =
           [(VStr ''r2'', VStr ''2024-01-01T10:00:00'')]"
proof -
  have ids1: "collect_review_ids (map metadata sample_collection) [] = [VStr ''r1'', VStr ''r2'']"
    by (simp add: sample_collection_def)
  have ids2: "collect_review_ids (map metadata swapped_collection) [] = [VStr ''r1'', VStr ''r2'']"
    by (simp add: swapped_collection_def)
  from assms show ?thesis
  proof
    assume o: "set_order [VStr ''r1'', VStr ''r2''] = [VStr ''r1'', VStr ''r2'']"
    have "review_heads (get_recent_reviews set_order clock sample_collection 1) =
           [(VStr ''r1'', VStr ''2024-01-01T10:00:00'')]"
      unfolding get_recent_reviews_def ids1 Let_def o
      by (simp add: py_take_def get_review_def coll_get_def matches_where_def
          sample_collection_def truthy_timestamps_def dget_def py_sorted_reverse_def
          review_heads_def Let_def min_def less_eq_mval_def)
    then show ?thesis ..
  next
    assume o: "set_order [VStr ''r1'', VStr ''r2''] = [VStr ''r2'', VStr ''r1'']"
    have "review_heads (get_recent_reviews set_order clock swapped_collection 1) =
           [(VStr ''r2'', VStr ''2024-01-01T10:00:00'')]"
      unfolding get_recent_reviews_def ids2 Let_def o
      by (simp add: py_take_def get_review_def coll_get_def matches_where_def
          swapped_collection_def truthy_timestamps_def dget_def py_sorted_reverse_def
          review_heads_def Let_def min_def less_eq_mval_def)
    then show ?thesis ..
  qed
qed

lemma get_review_id:
  "get_review clock coll review_id = Some rv \<Longrightarrow> rv_review_id rv = review_id"
  by (auto simp: get_review_def Let_def split: list.splits sum.splits if_splits)

lemma load_reviews_ids:
  "map rv_review_id (load_reviews clock coll ids acc) =
     map rv_review_id acc @ filter (\<lambda>i. get_review clock coll i \<noteq> None) ids"
  by (induction ids arbitrary: acc) (auto simp: get_review_id split: option.splits)

lemma py_sorted_reverse_mset:
  "py_sorted_reverse key xs = Inr ys \<Longrightarrow> mset ys = mset xs"
  by (auto simp: py_sorted_reverse_def split: if_splits)

lemma py_sorted_reverse_sorted:
  "py_sorted_reverse key xs = Inr ys \<Longrightarrow> sorted (rev (map key ys))"
  by (auto simp: py_sorted_reverse_def rev_map split: if_splits)

lemma py_take_length: "0 \<le> limit \<Longrightarrow> int (length (py_take limit xs)) \<le> limit"
  by (simp add: py_take_def)

lemma py_take_distinct: "distinct xs \<Longrightarrow> distinct (py_take limit xs)"
  by (simp add: py_take_def)

text \<open>
  What does hold of the listing: for a non-negative limit it returns at most \<open>limit\<close>
  reviews; their ids are distinct when the enumeration of the id set is; and they are
  in descending order of creation time.
\<close>

theorem get_recent_reviews_bounded_sorted:
  assumes "distinct (set_order (collect_review_ids (map metadata coll) []))"
  shows "(0 \<le> limit \<longrightarrow> int (length (get_recent_reviews set_order clock coll limit)) \<le> limit) \<and>
         distinct (map rv_review_id (get_recent_reviews set_order clock coll limit)) \<and>
         sorted (rev (map rv_created_at (get_recent_reviews set_order clock coll limit)))"
proof -
  define ids where "ids = py_take limit (set_order (collect_review_ids (map metadata coll) []))"
  define loaded where "loaded = load_reviews clock coll ids []"
  have d: "distinct ids"
    unfolding ids_def using assms by (rule py_take_distinct)
  have li: "map rv_review_id loaded = filter (\<lambda>i. get_review clock coll i \<noteq> None) ids"
    unfolding loaded_def by (simp add: load_reviews_ids)
  then have dl: "distinct (map rv_review_id loaded)"
    using d by simp
  have "length (map rv_review_id loaded) \<le> length ids"
    unfolding li by (rule length_filter_le)
  then have ll: "length loaded \<le> length ids" by simp
  show ?thesis
  proof (cases "py_sorted_reverse rv_created_at loaded")
    case (Inl e)
    then have "get_recent_reviews set_order clock coll limit = []"
      by (simp add: get_recent_reviews_def Let_def loaded_def ids_def)
    then show ?thesis by simp
  next
    case (Inr ys)
    then have r: "get_recent_reviews set_order clock coll limit = ys"
      by (simp add: get_recent_reviews_def Let_def loaded_def ids_def)
    from py_sorted_reverse_mset[OF Inr] have m: "mset ys = mset loaded" .
    then have "length ys = length loaded" by (rule mset_eq_length)
    with ll have len: "length ys \<le> length ids" by simp
    have "mset (map rv_review_id ys) = mset (map rv_review_id loaded)"
      using m by simp
    with dl have dy: "distinct (map rv_review_id ys)"
      by (metis mset_eq_imp_distinct_iff)
    have b: "0 \<le> limit \<longrightarrow> int (length ys) \<le> limit"
    proof
      assume "0 \<le> limit"
      then have "int (length ids) \<le> limit" unfolding ids_def by (rule py_take_length)
      with len show "int (length ys) \<le> limit" by simp
    qed
    from b dy py_sorted_reverse_sorted[OF Inr] show ?thesis
      unfolding r by simp
  qed
qed

theorem get_recent_reviews_bounded_sorted_witness:
  "distinct ((\<lambda>ids. ids) (collect_review_ids (map metadata sample_collection) [])) \<and>
   (0::int) \<le> 2 \<and>
   int (length (get_recent_reviews (\<lambda>ids. ids) (\<lambda>r. ''2024-04-01T00:00:00'') sample_collection 2)) \<le> 2 \<and>
   distinct (map rv_review_id
     (get_recent_reviews (\<lambda>ids. ids) (\<lambda>r. ''2024-04-01T00:00:00'') sample_collection 2)) \<and>
   sorted (rev (map rv_created_at
     (get_recent_reviews (\<lambda>ids. ids) (\<lambda>r. ''2024-04-01T00:00:00'') sample_collection 2))) \<and>
   map rv_review_id
     (get_recent_reviews (\<lambda>ids. ids) (\<lambda>r. ''2024-04-01T00:00:00'') sample_collection 2) =
     [VStr ''r2'', VStr ''r1'']"
proof -
  have d: "distinct ((\<lambda>ids. ids) (collect_review_ids (map metadata sample_collection) []))"
    by (simp add: sample_collection_def)
  have v: "map rv_review_id
     (get_recent_reviews (\<lambda>ids. ids) (\<lambda>r. ''2024-04-01T00:00:00'') sample_collection 2) =
     [VStr ''r2'', VStr ''r1'']"
    by code_simp
  note b = get_recent_reviews_bounded_sorted[where set_order = "\<lambda>ids. ids"
      and coll = sample_collection and limit = 2 and clock = "\<lambda>r. ''2024-04-01T00:00:00''"]
  from b[OF d] v d show ?thesis
    by simp
qed

section \<open>Properties of the statistics\<close>

lemma feedback_items_loop_filter:
  "feedback_items_loop es acc = acc @ map metadata (filter has_feedback es)"
  by (induction es arbitrary: acc) (simp_all add: has_feedback_def)

lemma statistics_body_filter:
  "statistics_body (filter has_feedback coll) = statistics_body coll"
  by (simp add: statistics_body_def feedback_items_loop_filter)

text \<open>
  C9: when no record of the store has a terminal action, \<open>get_statistics\<close> returns the
  zeroed structure; the call always returns a dictionary, whatever the store holds; and
  the result is the one computed from the records with a terminal action alone, so a
  pending record contributes to no count.
\<close>

theorem get_statistics_zeroed:
  "((\<forall>e \<in> set coll. \<not> has_feedback e) \<longrightarrow> get_statistics coll = Inr zeroed_statistics) \<and>
   (\<exists>s. get_statistics coll = Inr s) \<and>
   get_statistics (filter has_feedback coll) = get_statistics coll"
proof (intro conjI impI)
  assume "\<forall>e \<in> set coll. \<not> has_feedback e"
  then have "filter has_feedback coll = []" by (simp add: filter_empty_conv)
  then show "get_statistics coll = Inr zeroed_statistics"
    by (simp add: get_statistics_def statistics_body_def feedback_items_loop_filter
        zeroed_statistics_def)
next
  show "\<exists>s. get_statistics coll = Inr s"
    by (simp add: get_statistics_def split: sum.split)
next
  show "get_statistics (filter has_feedback coll) = get_statistics coll"
    by (simp add: get_statistics_def statistics_body_filter)
qed

theorem get_statistics_zeroed_witness:
  "filter has_feedback sample_collection = [] \<and>
   get_statistics sample_collection = Inr zeroed_statistics \<and>
   get_statistics [] = Inr zeroed_statistics"
proof -
  have f: "filter has_feedback sample_collection = []"
    by (simp add: sample_collection_def has_feedback_def dget_def feedback_actions_def)
  then have "\<forall>e \<in> set sample_collection. \<not> has_feedback e"
    by (simp add: filter_empty_conv)
  with get_statistics_zeroed[of sample_collection]
  have s: "get_statistics sample_collection = Inr zeroed_statistics"
    by simp
  from get_statistics_zeroed[of "[]"] have "get_statistics [] = Inr zeroed_statistics"
    by simp
  with f s show ?thesis by simp
qed

text \<open>
  For a collection with one edited, one rejected and one pending record the statistics
  count two feedback items: no accept, one reject, one edit, an acceptance rate of 0,
  and the reject in the confidence range 80-99. The pending record is not counted.
\<close>

theorem get_statistics_judged:
  "map_sum id (\<lambda>s. (total_feedback s, accepts s, rejects s, edits s, by_confidence s))
     (get_statistics judged_collection) =
   Inr (2, Some 0, Some 1, Some 1, Some [(''80-99'', \<lparr>cf_accept = 0, cf_reject = 1\<rparr>)])"
  by code_simp

section \<open>Properties of the suggestion generator\<close>

subsection \<open>Learned preferences in the prompt\<close>

lemma patterns_loop_filter:
  "patterns_loop rs (a, b) =
     (a @ map (\<lambda>r. ''- '' @ str_of_mval (sr_suggestion r)) (accepted_feedback rs),
      b @ map (\<lambda>r. ''- '' @ str_of_mval (sr_suggestion r)) (rejected_feedback rs))"
  by (induction rs arbitrary: a b) (simp_all add: accepted_feedback_def rejected_feedback_def)

text \<open>The guidance text for given accepted and rejected records.\<close>

lemma learned_context_partition:
  "learned_context rs =
     (if accepted_feedback rs = [] \<and> rejected_feedback rs = [] then ''''
      else ''\<newline>\<newline>## Learned Preferences:\<newline>'' @
        (if accepted_feedback rs \<noteq> []
         then ''User typically accepts:\<newline>'' @
              join ''\<newline>''
                (map (\<lambda>r. ''- '' @ str_of_mval (sr_suggestion r)) (take 3 (accepted_feedback rs))) @
              ''\<newline>''
         else '''') @
        (if rejected_feedback rs \<noteq> []
         then ''User typically rejects:\<newline>'' @
              join ''\<newline>''
                (map (\<lambda>r. ''- '' @ str_of_mval (sr_suggestion r)) (take 3 (rejected_feedback rs))) @
              ''\<newline>''
         else ''''))"
proof (cases "rs = []")
  case True
  then show ?thesis
    by (simp add: learned_context_def accepted_feedback_def rejected_feedback_def)
next
  case False
  then show ?thesis
    by (simp add: learned_context_def patterns_loop_filter take_map)
qed

lemma accepted_of_shown:
  "accepted_feedback (take 3 (accepted_feedback rs) @ take 3 (rejected_feedback rs)) =
     take 3 (accepted_feedback rs)"
proof -
  have a: "filter (\<lambda>r. sr_action r = VStr ''accept'') (take 3 (accepted_feedback rs)) =
           take 3 (accepted_feedback rs)"
    by (rule filter_True) (auto simp: accepted_feedback_def dest: in_set_takeD)
  have b: "filter (\<lambda>r. sr_action r = VStr ''accept'') (take 3 (rejected_feedback rs)) = []"
    by (rule filter_False) (auto simp: rejected_feedback_def dest: in_set_takeD)
  show ?thesis
    unfolding accepted_feedback_def[of "_ @ _"] filter_append a b by simp
qed

lemma rejected_of_shown:
  "rejected_feedback (take 3 (accepted_feedback rs) @ take 3 (rejected_feedback rs)) =
     take 3 (rejected_feedback rs)"
proof -
  have a: "filter (\<lambda>r. sr_action r = VStr ''reject'') (take 3 (accepted_feedback rs)) = []"
    by (rule filter_False) (auto simp: accepted_feedback_def dest: in_set_takeD)
  have b: "filter (\<lambda>r. sr_action r = VStr ''reject'') (take 3 (rejected_feedback rs)) =
           take 3 (rejected_feedback rs)"
    by (rule filter_True) (auto simp: rejected_feedback_def dest: in_set_takeD)
  show ?thesis
    unfolding rejected_feedback_def[of "_ @ _"] filter_append a b by simp
qed

lemma learned_context_shown:
  "learned_context (take 3 (accepted_feedback rs) @ take 3 (rejected_feedback rs)) =
   learned_context rs"
  unfolding learned_context_partition[of "_ @ _"] accepted_of_shown rejected_of_shown
  by (simp add: learned_context_partition[of rs])

text \<open>
  C8: the prompt is the one built from at most three accepted and at most three
  rejected records (the first three of each in retrieval order), so it carries at most
  three guidance texts of each kind; and when no retrieved record is accepted or
  rejected, the learned context is empty and the prompt is the fixed text around the
  file path and the code context, the same as for an empty list.
\<close>

theorem build_review_prompt_guidance:
  "build_review_prompt code_context file_path similar_reviews =
     build_review_prompt code_context file_path
       (take 3 (accepted_feedback similar_reviews) @ take 3 (rejected_feedback similar_reviews)) \<and>
   length (take 3 (accepted_feedback similar_reviews)) \<le> 3 \<and>
   length (take 3 (rejected_feedback similar_reviews)) \<le> 3 \<and>
   (accepted_feedback similar_reviews = [] \<and> rejected_feedback similar_reviews = [] \<longrightarrow>
      learned_context similar_reviews = '''' \<and>
      build_review_prompt code_context file_path similar_reviews =
        prompt_intro @ file_path @ prompt_changes @ code_context @ prompt_guidelines @ prompt_format \<and>
      build_review_prompt code_context file_path similar_reviews =
        build_review_prompt code_context file_path [])"
proof (intro conjI impI)
  show "build_review_prompt code_context file_path similar_reviews =
     build_review_prompt code_context file_path
       (take 3 (accepted_feedback similar_reviews) @ take 3 (rejected_feedback similar_reviews))"
    by (simp only: build_review_prompt_def learned_context_shown)
next
  assume none: "accepted_feedback similar_reviews = [] \<and> rejected_feedback similar_reviews = []"
  then show e: "learned_context similar_reviews = ''''"
    by (simp add: learned_context_partition)
  then show "build_review_prompt code_context file_path similar_reviews =
        prompt_intro @ file_path @ prompt_changes @ code_context @ prompt_guidelines @ prompt_format"
    by (simp add: build_review_prompt_def)
  from e show "build_review_prompt code_context file_path similar_reviews =
        build_review_prompt code_context file_path []"
    by (simp add: build_review_prompt_def learned_context_def)
qed simp_all

theorem build_review_prompt_guidance_witness:
  "accepted_feedback edited_only = [] \<and> rejected_feedback edited_only = [] \<and>
   learned_context edited_only = '''' \<and>
   build_review_prompt ''+ 1: x'' ''a.py'' edited_only = build_review_prompt ''+ 1: x'' ''a.py'' [] \<and>
   \<not> contains ''Learned Preferences'' (build_review_prompt ''+ 1: x'' ''a.py'' edited_only) \<and>
   learned_context similar_sample =
     ''\<newline>\<newline>## Learned Preferences:\<newline>User typically accepts:\<newline>- a1\<newline>- a2\<newline>- a3\<newline>User typically rejects:\<newline>- r1\<newline>''"
proof -
  have n: "accepted_feedback edited_only = [] \<and> rejected_feedback edited_only = []"
    by (simp add: accepted_feedback_def rejected_feedback_def edited_only_def)
  note g = build_review_prompt_guidance[of "''+ 1: x''" "''a.py''" edited_only]
  have e: "learned_context edited_only = '''' \<and>
        build_review_prompt ''+ 1: x'' ''a.py'' edited_only =
          prompt_intro @ ''a.py'' @ prompt_changes @ ''+ 1: x'' @ prompt_guidelines @ prompt_format \<and>
        build_review_prompt ''+ 1: x'' ''a.py'' edited_only = build_review_prompt ''+ 1: x'' ''a.py'' []"
    by (rule g[THEN conjunct2, THEN conjunct2, THEN conjunct2, THEN mp, OF n])
  have c: "\<not> contains ''Learned Preferences''
            (prompt_intro @ ''a.py'' @ prompt_changes @ ''+ 1: x'' @ prompt_guidelines @ prompt_format)"
    by code_simp
  have s: "learned_context similar_sample =
     ''\<newline>\<newline>## Learned Preferences:\<newline>User typically accepts:\<newline>- a1\<newline>- a2\<newline>- a3\<newline>User typically rejects:\<newline>- r1\<newline>''"
    by code_simp
  from e have p: "build_review_prompt ''+ 1: x'' ''a.py'' edited_only =
          prompt_intro @ ''a.py'' @ prompt_changes @ ''+ 1: x'' @ prompt_guidelines @ prompt_format"
    by (rule conjunct2[THEN conjunct1])
  have nc: "\<not> contains ''Learned Preferences'' (build_review_prompt ''+ 1: x'' ''a.py'' edited_only)"
    unfolding p by (rule c)
  from n e nc s show ?thesis
    by (elim conjE) (intro conjI; assumption)
qed

subsection \<open>Parsing the engine's response\<close>

lemma suggestions_loop_constructed:
  "fst (snd (suggestions_loop env file_path items n acc)) =
     acc @ constructed env file_path n items"
  by (induction items arbitrary: n acc) (auto simp: constructed_def split: sum.splits)

lemma parse_llm_response_body:
  "fst (parse_llm_response env n response file_path) =
     fst (snd (parse_body env n response file_path))"
  by (simp add: parse_llm_response_def split: prod.splits option.splits error.splits)

text \<open>
  C2, as stated, fails: for the response \<open>[{"confidence": 80}, 5]\<close> the second item cannot
  be constructed, yet the suggestion built from the first item is returned.
\<close>

theorem parse_llm_response_partial_counterexample:
  "json_loads sample_env partial_json = Some (JArr [JObj [(''confidence'', JInt 80)], JInt 5]) \<and>
   make_suggestion sample_env (uuid4 sample_env 1) ''a.py'' (JInt 5) = Inl AttributeError \<and>
   fst (parse_llm_response sample_env 0 partial_json ''a.py'') =
     [\<lparr>sg_id = ''id-0'', sg_line_number = 0, sg_end_line_number = None, sg_file_path = ''a.py'',
       sg_category = ''best_practice'', sg_suggestion = '''', sg_confidence = 80,
       sg_code_snippet = ''''\<rparr>] \<and>
   fst (parse_llm_response sample_env 0 partial_json ''a.py'') \<noteq> []"
  by code_simp

text \<open>
  C2, amended: \<open>_parse_llm_response\<close> returns for every response and file path:
  whatever exception ends its \<open>try\<close> block, it returns the list \<open>suggestions\<close> as the block
  left it. That is the empty list when the JSON text cannot be extracted or parsed or is
  not iterable; otherwise it is the list of the suggestions constructed from the items
  before the first item whose construction fails, which is empty when the first item
  fails.
\<close>

theorem parse_llm_response_constructed:
  "parse_llm_response env n response file_path = snd (parse_body env n response file_path) \<and>
   fst (parse_llm_response env n response file_path) =
     (case extract_json response of
        Inl e \<Rightarrow> []
      | Inr json_text \<Rightarrow>
          (case json_loads env json_text of
             None \<Rightarrow> []
           | Some suggestions_data \<Rightarrow>
               (case iter_items suggestions_data of
                  Inl e \<Rightarrow> []
                | Inr items \<Rightarrow> constructed env file_path n items)))"
proof
  show "parse_llm_response env n response file_path = snd (parse_body env n response file_path)"
    by (simp add: parse_llm_response_def split: prod.splits option.splits error.splits)
next
  show "fst (parse_llm_response env n response file_path) =
     (case extract_json response of
        Inl e \<Rightarrow> []
      | Inr json_text \<Rightarrow>
          (case json_loads env json_text of
             None \<Rightarrow> []
           | Some suggestions_data \<Rightarrow>
               (case iter_items suggestions_data of
                  Inl e \<Rightarrow> []
                | Inr items \<Rightarrow> constructed env file_path n items)))"
    by (simp add: parse_llm_response_body parse_body_def suggestions_loop_constructed
        split: sum.splits option.splits)
qed

theorem parse_llm_response_constructed_witness:
  "extract_json ''no json here'' = Inr ''no json here'' \<and>
   json_loads sample_env ''no json here'' = None \<and>
   fst (parse_llm_response sample_env 0 ''no json here'' ''a.py'') = [] \<and>
   fst (parse_llm_response sample_env 0 (''```json\<newline>'' @ good_json @ ''\<newline>```'') ''b.py'') =
     constructed sample_env ''b.py'' 0
       [JObj [(''line_number'', JInt 1), (''category'', JStr ''style''),
              (''suggestion'', JStr ''add a docstring''), (''confidence'', JInt 80)],
        JObj [(''line_number'', JInt 1), (''confidence'', JInt 20)]] \<and>
   map sg_confidence
     (fst (parse_llm_response sample_env 0 (''```json\<newline>'' @ good_json @ ''\<newline>```'') ''b.py'')) =
     [80, 20]"
proof -
  have x: "extract_json ''no json here'' = Inr ''no json here''"
    by code_simp
  have l: "json_loads sample_env ''no json here'' = None"
    by code_simp
  have x2: "extract_json (''```json\<newline>'' @ good_json @ ''\<newline>```'') = Inr good_json"
    by code_simp
  have l2: "json_loads sample_env good_json =
      Some (JArr [JObj [(''line_number'', JInt 1), (''category'', JStr ''style''),
                        (''suggestion'', JStr ''add a docstring''), (''confidence'', JInt 80)],
                  JObj [(''line_number'', JInt 1), (''confidence'', JInt 20)]])"
    by code_simp
  have a: "fst (parse_llm_response sample_env 0 ''no json here'' ''a.py'') = []"
    by (simp only: parse_llm_response_constructed[of sample_env 0 "''no json here''" "''a.py''",
          THEN conjunct2] x l sum.case option.case)
  have b: "fst (parse_llm_response sample_env 0 (''```json\<newline>'' @ good_json @ ''\<newline>```'') ''b.py'') =
     constructed sample_env ''b.py'' 0
       [JObj [(''line_number'', JInt 1), (''category'', JStr ''style''),
              (''suggestion'', JStr ''add a docstring''), (''confidence'', JInt 80)],
        JObj [(''line_number'', JInt 1), (''confidence'', JInt 20)]]"
    by (simp only: parse_llm_response_constructed[of sample_env 0 _ "''b.py''", THEN conjunct2]
        x2 l2 sum.case option.case iter_items_def json.case)
  have c: "map sg_confidence
     (constructed sample_env ''b.py'' 0
       [JObj [(''line_number'', JInt 1), (''category'', JStr ''style''),
              (''suggestion'', JStr ''add a docstring''), (''confidence'', JInt 80)],
        JObj [(''line_number'', JInt 1), (''confidence'', JInt 20)]]) = [80, 20]"
    by code_simp
  from x l a b c show ?thesis by (simp only: simp_thms)
qed

subsection \<open>The confidence threshold\<close>

lemma review_files_loop_concat:
  "fst (review_files_loop env fcs n acc) = acc @ concat (file_reviews env fcs n)"
  by (induction fcs arbitrary: n acc) (simp_all split: prod.splits)

lemma generated_suggestions_concat:
  "generated_suggestions env parsed_diff n = concat (file_reviews env (files parsed_diff) n)"
  by (simp add: generated_suggestions_def review_files_loop_concat)

text \<open>
  C5: \<open>generate_review\<close> returns, in order, exactly those suggestions generated for the
  files of the diff whose confidence is at least the configured minimum: none below it
  is returned, and every generated suggestion at or above it is.
\<close>

theorem generate_review_threshold:
  "generate_review env parsed_diff n =
     filter (\<lambda>s. min_confidence env \<le> sg_confidence s)
       (concat (file_reviews env (files parsed_diff) n)) \<and>
   (\<forall>s \<in> set (generate_review env parsed_diff n).
      \<not> sg_confidence s < min_confidence env \<and>
      s \<in> set (concat (file_reviews env (files parsed_diff) n))) \<and>
   (\<forall>s \<in> set (concat (file_reviews env (files parsed_diff) n)).
      min_confidence env \<le> sg_confidence s \<longrightarrow> s \<in> set (generate_review env parsed_diff n))"
  by (simp add: generate_review_def generated_suggestions_concat)

theorem generate_review_threshold_witness:
  "min_confidence sample_env = 30 \<and>
   map (map sg_confidence) (file_reviews sample_env (files sample_diff) 0) = [[], [80, 20]] \<and>
   map sg_confidence (generate_review sample_env sample_diff 0) = [80] \<and>
   map sg_file_path (generate_review sample_env sample_diff 0) = [''b.py'']"
proof -
  have m: "min_confidence sample_env = 30"
    by (simp add: sample_env_def)
  have f: "file_reviews sample_env (files sample_diff) 0 =
     [[],
      [\<lparr>sg_id = ''id-0'', sg_line_number = 1, sg_end_line_number = None, sg_file_path = ''b.py'',
        sg_category = ''style'', sg_suggestion = ''add a docstring'', sg_confidence = 80,
        sg_code_snippet = ''''\<rparr>,
       \<lparr>sg_id = ''id-1'', sg_line_number = 1, sg_end_line_number = None, sg_file_path = ''b.py'',
        sg_category = ''best_practice'', sg_suggestion = '''', sg_confidence = 20,
        sg_code_snippet = ''''\<rparr>]]"
    by code_simp
  from generate_review_threshold[of sample_env sample_diff 0]
  have "generate_review sample_env sample_diff 0 =
     filter (\<lambda>s. min_confidence sample_env \<le> sg_confidence s)
       (concat (file_reviews sample_env (files sample_diff) 0))"
    by (rule conjunct1)
  then have g: "generate_review sample_env sample_diff 0 =
      [\<lparr>sg_id = ''id-0'', sg_line_number = 1, sg_end_line_number = None, sg_file_path = ''b.py'',
        sg_category = ''style'', sg_suggestion = ''add a docstring'', sg_confidence = 80,
        sg_code_snippet = ''''\<rparr>]"
    by (simp add: f m)
  show ?thesis
    by (simp add: m f g)
qed

subsection \<open>The code context and the isolation of a failing file\<close>

lemma changed_lines_loop_filter:
  "changed_lines_loop ls acc =
     acc @ map (\<lambda>l. line_type l @ '' '' @ show_int (line_num l) @ '': '' @ line_value l)
             (filter (\<lambda>l. line_type l = ''+'' \<or> line_type l = ''-'') ls)"
  by (induction ls arbitrary: acc) simp_all

lemma changed_hunks_loop_filter:
  "changed_hunks_loop hs acc =
     acc @ map (\<lambda>l. line_type l @ '' '' @ show_int (line_num l) @ '': '' @ line_value l)
             (filter (\<lambda>l. line_type l = ''+'' \<or> line_type l = ''-'') (concat (map hunk_lines hs)))"
  by (induction hs arbitrary: acc) (simp_all add: changed_lines_loop_filter)

text \<open>
  The code context of a file is the newline-joined list of its added and removed lines
  only, in order, each rendered as sign, line number, colon and text; the line number
  is the target number when that is present and not 0, else the source number, else 0.
\<close>

theorem build_code_context_changed_lines:
  "build_code_context fc =
     join ''\<newline>''
       (map (\<lambda>l. line_type l @ '' '' @ show_int (line_num l) @ '': '' @ line_value l)
          (filter (\<lambda>l. line_type l = ''+'' \<or> line_type l = ''-'') (file_lines fc))) \<and>
   line_num l =
     (if target_line_no l \<noteq> None \<and> target_line_no l \<noteq> Some 0 then the (target_line_no l)
      else if source_line_no l \<noteq> None then the (source_line_no l)
      else 0)"
  by (auto simp: build_code_context_def changed_hunks_loop_filter file_lines_def line_num_def
      split: option.splits)

lemma review_files_loop_acc:
  "review_files_loop env fcs n acc =
     (acc @ fst (review_files_loop env fcs n []), snd (review_files_loop env fcs n []))"
proof (induction fcs arbitrary: n acc)
  case Nil
  show ?case by simp
next
  case (Cons fc fcs)
  obtain r k where rf: "review_file env fc n = (r, k)" by (cases "review_file env fc n")
  show ?case
    using Cons.IH[of k "acc @ r"] Cons.IH[of k "[] @ r"] by (simp add: rf)
qed

lemma review_files_loop_append:
  "review_files_loop env (pre @ post) n [] =
     (fst (review_files_loop env pre n []) @
        fst (review_files_loop env post (ids_after env pre n) []),
      snd (review_files_loop env post (ids_after env pre n) []))"
proof (induction pre arbitrary: n)
  case Nil
  show ?case by (simp add: ids_after_def)
next
  case (Cons fc pre)
  obtain r k where rf: "review_file env fc n = (r, k)" by (cases "review_file env fc n")
  have a: "review_files_loop env ((fc # pre) @ post) n [] =
        (r @ fst (review_files_loop env (pre @ post) k []),
         snd (review_files_loop env (pre @ post) k []))"
    using review_files_loop_acc[of env "pre @ post" k r] by (simp add: rf)
  have b: "review_files_loop env (fc # pre) n [] =
        (r @ fst (review_files_loop env pre k []), snd (review_files_loop env pre k []))"
    using review_files_loop_acc[of env pre k r] by (simp add: rf)
  have c: "ids_after env (fc # pre) n = ids_after env pre k"
    using review_files_loop_acc[of env pre k r] by (simp add: ids_after_def rf)
  show ?case
    by (simp only: a b c Cons.IH[of k] fst_conv snd_conv append_assoc)
qed

text \<open>
  A file for which the engine fails, or whose response is not JSON, contributes the
  empty list and draws no identifier; and a file that contributes nothing and draws
  nothing leaves the review of the files before and after it as it would be without it.
\<close>

theorem review_file_failure_isolated:
  "((\<forall>prompt. (\<exists>e. llm_invoke env prompt = Inl e) \<or>
       (\<exists>response json_text. llm_invoke env prompt = Inr response \<and>
           extract_json response = Inr json_text \<and> json_loads env json_text = None)) \<longrightarrow>
      review_file env fc k = ([], k)) \<and>
   (review_file env fc (ids_after env pre n) = ([], ids_after env pre n) \<longrightarrow>
      generate_review env (parsed_diff\<lparr>files := pre @ fc # post\<rparr>) n =
      generate_review env (parsed_diff\<lparr>files := pre @ post\<rparr>) n)"
proof (intro conjI impI)
  assume bad: "\<forall>prompt. (\<exists>e. llm_invoke env prompt = Inl e) \<or>
       (\<exists>response json_text. llm_invoke env prompt = Inr response \<and>
           extract_json response = Inr json_text \<and> json_loads env json_text = None)"
  define prompt where "prompt = build_review_prompt (build_code_context fc) (path fc)
      (find_similar_code (similarity_query env) (build_code_context fc) 3)"
  from bad have "(\<exists>e. llm_invoke env prompt = Inl e) \<or>
       (\<exists>response json_text. llm_invoke env prompt = Inr response \<and>
           extract_json response = Inr json_text \<and> json_loads env json_text = None)"
    by (rule spec)
  then show "review_file env fc k = ([], k)"
  proof
    assume "\<exists>e. llm_invoke env prompt = Inl e"
    then show ?thesis
      by (auto simp: review_file_def Let_def prompt_def)
  next
    assume "\<exists>response json_text. llm_invoke env prompt = Inr response \<and>
           extract_json response = Inr json_text \<and> json_loads env json_text = None"
    then show ?thesis
      by (auto simp: review_file_def Let_def prompt_def parse_llm_response_def parse_body_def)
  qed
next
  assume none: "review_file env fc (ids_after env pre n) = ([], ids_after env pre n)"
  have "review_files_loop env (fc # post) (ids_after env pre n) [] =
        review_files_loop env post (ids_after env pre n) []"
    by (simp add: none)
  then have "fst (review_files_loop env (pre @ fc # post) n []) =
        fst (review_files_loop env (pre @ post) n [])"
    by (simp only: review_files_loop_append[of env pre "fc # post" n]
        review_files_loop_append[of env pre post n] fst_conv)
  then show "generate_review env (parsed_diff\<lparr>files := pre @ fc # post\<rparr>) n =
      generate_review env (parsed_diff\<lparr>files := pre @ post\<rparr>) n"
    by (simp add: generate_review_def generated_suggestions_def)
qed

theorem review_file_failure_isolated_witness:
  "review_file sample_env (files sample_diff ! 0) (ids_after sample_env [] 0) =
     ([], ids_after sample_env [] 0) \<and>
   generate_review sample_env (sample_diff\<lparr>files := [] @ files sample_diff ! 0 # [files sample_diff ! 1]\<rparr>) 0 =
     generate_review sample_env (sample_diff\<lparr>files := [] @ [files sample_diff ! 1]\<rparr>) 0 \<and>
   map sg_confidence (generate_review sample_env (sample_diff\<lparr>files := [files sample_diff ! 1]\<rparr>) 0) = [80]"
proof -
  have a: "review_file sample_env (files sample_diff ! 0) (ids_after sample_env [] 0) =
     ([], ids_after sample_env [] 0)"
    by code_simp
  from review_file_failure_isolated[where env = sample_env and fc = "files sample_diff ! 0"
      and pre = "[]" and n = 0 and parsed_diff = sample_diff and post = "[files sample_diff ! 1]",
      THEN conjunct2, THEN mp, OF a]
  have b: "generate_review sample_env (sample_diff\<lparr>files := [] @ files sample_diff ! 0 # [files sample_diff ! 1]\<rparr>) 0 =
     generate_review sample_env (sample_diff\<lparr>files := [] @ [files sample_diff ! 1]\<rparr>) 0" .
  have c: "map sg_confidence (generate_review sample_env (sample_diff\<lparr>files := [files sample_diff ! 1]\<rparr>) 0) = [80]"
    by code_simp
  from a b c show ?thesis by (intro conjI)
qed

text \<open>
  The end-to-end example of the specification: one added line in \<open>a.py\<close> and an engine
  answering with one suggestion of confidence 80 give exactly one suggestion, for
  \<open>a.py\<close>, of category \<open>style\<close> and confidence 80.
\<close>

theorem generate_review_end_to_end:
  "generate_review hi_env hi_diff 0 =
     [\<lparr>sg_id = ''id-0'', sg_line_number = 10, sg_end_line_number = None, sg_file_path = ''a.py'',
       sg_category = ''style'', sg_suggestion = ''use f-string'', sg_confidence = 80,
       sg_code_snippet = ''print(\"hi\")''\<rparr>]"
  by code_simp

section \<open>Properties of the feedback endpoint\<close>

text \<open>
  C4: for an action outside accept, reject and edit the body of \<open>submit_feedback\<close> raises
  the exception with status 400, but the enclosing \<open>except Exception\<close> catches it and
  raises one with status 500 in its place: the endpoint answers 500, never 400.
\<close>

theorem submit_feedback_invalid_action:
  assumes "fr_action request \<notin> set [''accept'', ''reject'', ''edit'']"
  shows "(\<exists>detail. submit_body service now request = Inl (HTTPException 400 detail)) \<and>
         (\<exists>detail. submit_feedback str_of service now request = Inl (HTTPException 500 detail)) \<and>
         response_status (submit_feedback str_of service now request) = 500"
  using assms
  by (simp add: submit_feedback_def submit_body_def response_status_def)

theorem submit_feedback_invalid_action_witness:
  "''maybe'' \<notin> set [''accept'', ''reject'', ''edit''] \<and>
   response_status
     (submit_feedback (\<lambda>e. ''error'') (Inr sample_collection) ''2024-03-01T08:00:00''
        \<lparr>fr_review_id = ''r1'', fr_suggestion_id = ''s1'', fr_action = ''maybe'',
         fr_reason = None, fr_edited_suggestion = None\<rparr>) = 500 \<and>
   response_status
     (submit_feedback (\<lambda>e. ''error'') (Inr sample_collection) ''2024-03-01T08:00:00''
        \<lparr>fr_review_id = ''r1'', fr_suggestion_id = ''s1'', fr_action = ''maybe'',
         fr_reason = None, fr_edited_suggestion = None\<rparr>) \<noteq> 400"
proof -
  have h: "fr_action \<lparr>fr_review_id = ''r1'', fr_suggestion_id = ''s1'', fr_action = ''maybe'',
         fr_reason = None, fr_edited_suggestion = None\<rparr> \<notin> set [''accept'', ''reject'', ''edit'']"
    by simp
  from submit_feedback_invalid_action[OF h, of "Inr sample_collection" "''2024-03-01T08:00:00''"
      "\<lambda>e. ''error''"]
  show ?thesis by simp
qed

text \<open>A valid action on the same request is answered with 200.\<close>

lemma submit_feedback_valid_action:
  "response_status
     (submit_feedback (\<lambda>e. ''error'') (Inr sample_collection) ''2024-03-01T08:00:00''
        \<lparr>fr_review_id = ''r1'', fr_suggestion_id = ''s1'', fr_action = ''reject'',
         fr_reason = Some ''too strict'', fr_edited_suggestion = None\<rparr>) = 200"
  by (simp add: submit_feedback_def submit_body_def response_status_def)

end
